theory Spec2Isabelle
  imports Main "HOL-Library.Word"
begin

unbundle bit_operations_syntax

section \<open>The PSA cipher driver entry points of \<^verbatim>\<open>library/psa_crypto_cipher.c\<close>\<close>

text \<open>
  The file adapts the streaming PSA cipher interface (setup, update, finish, abort) to
  the Mbed TLS cipher module. Each C function becomes a HOL function that takes the
  operation object and returns it updated, together with the status code and the bytes
  written to the caller's buffer. The result type is an \<open>option\<close>: \<open>None\<close> stands for
  the runs in which the C function gives no defined result (a read or write outside an
  array, a division by zero, a loop that never ends).

  Sizes (\<^verbatim>\<open>size_t\<close>) are natural numbers: they are the lengths of buffers that exist, so
  sums of them do not wrap. The one subtraction of the file that can wrap is written out.
  The file is read with every \<^verbatim>\<open>MBEDTLS_PSA_BUILTIN_*\<close> option of its
  \<^verbatim>\<open>#if\<close>s enabled. Its two IV functions and the entry points that only pass their
  arguments on are left out.
\<close>

subsection \<open>Data\<close>

type_synonym uint8_t = "8 word"
type_synonym psa_algorithm_t = "32 word"
type_synonym psa_key_type_t = "16 word"

text \<open>The status codes the file names; any other code a translation can give is \<open>PSA_ERROR_other\<close>.\<close>

datatype psa_status_t =
    PSA_SUCCESS
  | PSA_ERROR_GENERIC_ERROR
  | PSA_ERROR_NOT_SUPPORTED
  | PSA_ERROR_INVALID_ARGUMENT
  | PSA_ERROR_BAD_STATE
  | PSA_ERROR_BUFFER_TOO_SMALL
  | PSA_ERROR_CORRUPTION_DETECTED
  | PSA_ERROR_other int

datatype mbedtls_operation_t = MBEDTLS_DECRYPT | MBEDTLS_ENCRYPT

datatype mbedtls_cipher_padding_t = MBEDTLS_PADDING_PKCS7 | MBEDTLS_PADDING_NONE

text \<open>
  \<^verbatim>\<open>mbedtls_cipher_info_t\<close>: the file reads the field \<^verbatim>\<open>block_size\<close> only; \<open>info_ident\<close>
  stands for the rest of the descriptor.
\<close>

record mbedtls_cipher_info_t =
  info_block_size :: nat
  info_ident :: nat

text \<open>
  \<^verbatim>\<open>mbedtls_cipher_context_t\<close>: the fields the file reads and writes itself, and
  \<open>cipher_ctx\<close> for everything only the cipher module touches (key schedule, direction,
  IV, padding callbacks). \<open>cipher_info\<close> is a pointer, \<open>None\<close> when it is \<^verbatim>\<open>NULL\<close>;
  \<open>unprocessed_data\<close> is an array, its length the size of the array.
\<close>

record 'e mbedtls_cipher_context_t =
  cipher_info :: "mbedtls_cipher_info_t option"
  unprocessed_data :: "uint8_t list"
  unprocessed_len :: nat
  cipher_ctx :: 'e

text \<open>
  \<^verbatim>\<open>mbedtls_psa_cipher_operation_t\<close>. Its field \<^verbatim>\<open>cipher\<close> is \<open>op_cipher\<close> here. The
  structure is declared in a header; the two sizes, block lengths and nonce lengths, are
  numbers here.
\<close>

record 'e mbedtls_psa_cipher_operation_t =
  alg :: psa_algorithm_t
  iv_size :: nat
  block_size :: nat
  op_cipher :: "'e mbedtls_cipher_context_t"

text \<open>\<^verbatim>\<open>attributes->core.type\<close> and \<^verbatim>\<open>attributes->core.bits\<close>.\<close>

record psa_key_attributes_t =
  core_type :: psa_key_type_t
  core_bits :: nat

subsection \<open>What the file takes from elsewhere\<close>

text \<open>
  The functions of the Mbed TLS cipher module and the error translation are called by
  the file and defined outside it. They are parameters of the model: a record of
  functions, each taking the context and returning it updated with the return code.
  \<open>mbedtls_cipher_update\<close> returns the bytes it wrote to its output pointer, their number
  being \<^verbatim>\<open>*olen\<close>; \<open>mbedtls_cipher_finish\<close> returns the bytes it wrote and \<^verbatim>\<open>*olen\<close>
  apart, since a finalisation may write a whole block and report fewer bytes.
\<close>

record 'e mbedtls_cipher =
  mbedtls_cipher_init :: "'e mbedtls_cipher_context_t \<Rightarrow> 'e mbedtls_cipher_context_t"
  mbedtls_cipher_info_from_psa ::
    "psa_algorithm_t \<Rightarrow> psa_key_type_t \<Rightarrow> nat \<Rightarrow> mbedtls_cipher_info_t option"
  mbedtls_cipher_setup ::
    "'e mbedtls_cipher_context_t \<Rightarrow> mbedtls_cipher_info_t \<Rightarrow> int \<times> 'e mbedtls_cipher_context_t"
  mbedtls_cipher_setkey ::
    "'e mbedtls_cipher_context_t \<Rightarrow> uint8_t list \<Rightarrow> int \<Rightarrow> mbedtls_operation_t
       \<Rightarrow> int \<times> 'e mbedtls_cipher_context_t"
  mbedtls_cipher_set_padding_mode ::
    "'e mbedtls_cipher_context_t \<Rightarrow> mbedtls_cipher_padding_t \<Rightarrow> int \<times> 'e mbedtls_cipher_context_t"
  mbedtls_cipher_update ::
    "'e mbedtls_cipher_context_t \<Rightarrow> uint8_t list
       \<Rightarrow> int \<times> 'e mbedtls_cipher_context_t \<times> uint8_t list"
  mbedtls_cipher_finish ::
    "'e mbedtls_cipher_context_t \<Rightarrow> int \<times> 'e mbedtls_cipher_context_t \<times> uint8_t list \<times> nat"
  mbedtls_cipher_free :: "'e mbedtls_cipher_context_t \<Rightarrow> 'e mbedtls_cipher_context_t"
  mbedtls_to_psa_error :: "int \<Rightarrow> psa_status_t"

text \<open>
  The macros and constants of the PSA headers that the file uses are parameters too.
\<close>

record psa_crypto_values =
  PSA_ALG_IS_CIPHER :: "psa_algorithm_t \<Rightarrow> bool"
  PSA_ALG_IS_STREAM_CIPHER :: "psa_algorithm_t \<Rightarrow> bool"
  PSA_ALG_CIPHER_FROM_BLOCK_FLAG :: psa_algorithm_t
  PSA_ALG_ECB_NO_PADDING :: psa_algorithm_t
  PSA_ALG_CBC_NO_PADDING :: psa_algorithm_t
  PSA_ALG_CBC_PKCS7 :: psa_algorithm_t
  PSA_ALG_STREAM_CIPHER :: psa_algorithm_t
  PSA_KEY_TYPE_DES :: psa_key_type_t
  PSA_KEY_TYPE_CHACHA20 :: psa_key_type_t
  PSA_BLOCK_CIPHER_BLOCK_LENGTH :: "psa_key_type_t \<Rightarrow> nat"

text \<open>
  \<^verbatim>\<open>memcpy( &dst[off], src, n )\<close> with \<open>n = length src\<close>, inside the array.
\<close>

definition memcpy :: "uint8_t list \<Rightarrow> nat \<Rightarrow> uint8_t list \<Rightarrow> uint8_t list" where
  "memcpy dst off src = take off dst @ src @ drop (off + length src) dst"

text \<open>
  Modelled from the spec: \<^verbatim>\<open>mbedtls_platform_zeroize\<close> is defined outside the file; the
  spec has the buffer "overwritten with zeros".
\<close>

definition mbedtls_platform_zeroize :: "uint8_t list \<Rightarrow> nat \<Rightarrow> uint8_t list" where
  "mbedtls_platform_zeroize buf n = replicate (min n (length buf)) 0 @ drop n buf"

subsection \<open>Results of the entry points\<close>

record 'e cipher_result =
  res_status :: psa_status_t
  res_operation :: "'e mbedtls_psa_cipher_operation_t"
  res_output :: "uint8_t list"
  res_output_length :: "nat option"

text \<open>
  \<open>res_output\<close> is the bytes the call wrote to the caller's buffer, from its start;
  \<open>res_output_length\<close> is \<^verbatim>\<open>*output_length\<close>, \<open>None\<close> when the call did not assign it.
\<close>

subsection \<open>\<^verbatim>\<open>cipher_setup\<close>\<close>

text \<open>Lines 63 to 79: the key handed to \<^verbatim>\<open>mbedtls_cipher_setkey\<close>.\<close>

definition cipher_setup_setkey ::
  "'e mbedtls_cipher \<Rightarrow> psa_crypto_values \<Rightarrow> 'e mbedtls_cipher_context_t \<Rightarrow> psa_key_type_t
     \<Rightarrow> nat \<Rightarrow> uint8_t list \<Rightarrow> mbedtls_operation_t
     \<Rightarrow> (int \<times> 'e mbedtls_cipher_context_t) option" where
  "cipher_setup_setkey E V ctx key_type key_bits key_buffer cipher_operation =
     (if key_type = PSA_KEY_TYPE_DES V \<and> key_bits = 128 then
        (if length key_buffer < 16 then None
         else
           let keys = take 16 key_buffer @ take 8 key_buffer
           in Some (mbedtls_cipher_setkey E ctx keys 192 cipher_operation))
      else Some (mbedtls_cipher_setkey E ctx key_buffer (int key_bits) cipher_operation))"

text \<open>Lines 85 to 99: the padding mode.\<close>

definition cipher_setup_padding ::
  "'e mbedtls_cipher \<Rightarrow> psa_crypto_values \<Rightarrow> 'e mbedtls_cipher_context_t \<Rightarrow> psa_algorithm_t
     \<Rightarrow> int \<times> 'e mbedtls_cipher_context_t" where
  "cipher_setup_padding E V ctx a =
     (if a = PSA_ALG_CBC_NO_PADDING V then
        mbedtls_cipher_set_padding_mode E ctx MBEDTLS_PADDING_NONE
      else if a = PSA_ALG_CBC_PKCS7 V then
        mbedtls_cipher_set_padding_mode E ctx MBEDTLS_PADDING_PKCS7
      else (0, ctx))"

text \<open>Lines 104 to 116: the block size and the IV size.\<close>

definition cipher_setup_sizes ::
  "psa_crypto_values \<Rightarrow> 'e mbedtls_psa_cipher_operation_t \<Rightarrow> psa_algorithm_t \<Rightarrow> psa_key_type_t
     \<Rightarrow> 'e mbedtls_psa_cipher_operation_t" where
  "cipher_setup_sizes V operation a key_type =
     (let operation = operation\<lparr>block_size :=
            (if PSA_ALG_IS_STREAM_CIPHER V a then 1
             else PSA_BLOCK_CIPHER_BLOCK_LENGTH V key_type)\<rparr>
      in
        if (a AND PSA_ALG_CIPHER_FROM_BLOCK_FLAG V) \<noteq> 0 \<and> a \<noteq> PSA_ALG_ECB_NO_PADDING V then
          operation\<lparr>iv_size := PSA_BLOCK_CIPHER_BLOCK_LENGTH V key_type\<rparr>
        else if a = PSA_ALG_STREAM_CIPHER V \<and> key_type = PSA_KEY_TYPE_CHACHA20 V then
          operation\<lparr>iv_size := 12\<rparr>
        else operation)"

definition cipher_setup ::
  "'e mbedtls_cipher \<Rightarrow> psa_crypto_values \<Rightarrow> 'e mbedtls_psa_cipher_operation_t
     \<Rightarrow> psa_key_attributes_t \<Rightarrow> uint8_t list \<Rightarrow> psa_algorithm_t \<Rightarrow> mbedtls_operation_t
     \<Rightarrow> (psa_status_t \<times> 'e mbedtls_psa_cipher_operation_t) option" where
  "cipher_setup E V operation attributes key_buffer a cipher_operation =
     (let key_type = core_type attributes;
          operation = operation\<lparr>op_cipher := mbedtls_cipher_init E (op_cipher operation)\<rparr>;
          operation = operation\<lparr>alg := a\<rparr>;
          key_bits = core_bits attributes
      in
        case mbedtls_cipher_info_from_psa E a key_type key_bits of
          None \<Rightarrow> Some (PSA_ERROR_NOT_SUPPORTED, operation)
        | Some info \<Rightarrow>
            (case mbedtls_cipher_setup E (op_cipher operation) info of
               (ret, ctx) \<Rightarrow>
                 if ret \<noteq> 0 then
                   Some (mbedtls_to_psa_error E ret, operation\<lparr>op_cipher := ctx\<rparr>)
                 else
                   (case cipher_setup_setkey E V ctx key_type key_bits key_buffer
                           cipher_operation of
                      None \<Rightarrow> None
                    | Some (ret, ctx) \<Rightarrow>
                        if ret \<noteq> 0 then
                          Some (mbedtls_to_psa_error E ret, operation\<lparr>op_cipher := ctx\<rparr>)
                        else
                          (case cipher_setup_padding E V ctx a of
                             (ret, ctx) \<Rightarrow>
                               if ret \<noteq> 0 then
                                 Some (mbedtls_to_psa_error E ret,
                                       operation\<lparr>op_cipher := ctx\<rparr>)
                               else
                                 Some (mbedtls_to_psa_error E ret,
                                       cipher_setup_sizes V (operation\<lparr>op_cipher := ctx\<rparr>)
                                         a key_type)))))"

definition cipher_encrypt_setup ::
  "'e mbedtls_cipher \<Rightarrow> psa_crypto_values \<Rightarrow> 'e mbedtls_psa_cipher_operation_t
     \<Rightarrow> psa_key_attributes_t \<Rightarrow> uint8_t list \<Rightarrow> psa_algorithm_t
     \<Rightarrow> (psa_status_t \<times> 'e mbedtls_psa_cipher_operation_t) option" where
  "cipher_encrypt_setup E V operation attributes key_buffer a =
     cipher_setup E V operation attributes key_buffer a MBEDTLS_ENCRYPT"

definition cipher_decrypt_setup ::
  "'e mbedtls_cipher \<Rightarrow> psa_crypto_values \<Rightarrow> 'e mbedtls_psa_cipher_operation_t
     \<Rightarrow> psa_key_attributes_t \<Rightarrow> uint8_t list \<Rightarrow> psa_algorithm_t
     \<Rightarrow> (psa_status_t \<times> 'e mbedtls_psa_cipher_operation_t) option" where
  "cipher_decrypt_setup E V operation attributes key_buffer a =
     cipher_setup E V operation attributes key_buffer a MBEDTLS_DECRYPT"

subsection \<open>\<^verbatim>\<open>psa_cipher_update_ecb\<close>\<close>

text \<open>
  Results are \<open>(status, ctx, bytes written to output, *output_length)\<close>.
  Lines 248 to 256, after the loop: the bytes short of a block are saved.
\<close>

definition ecb_save_unprocessed ::
  "'e mbedtls_cipher_context_t \<Rightarrow> uint8_t list \<Rightarrow> uint8_t list \<Rightarrow> nat
     \<Rightarrow> (psa_status_t \<times> 'e mbedtls_cipher_context_t \<times> uint8_t list \<times> nat) option" where
  "ecb_save_unprocessed ctx input output output_length =
     (if length input > 0 then
        (if unprocessed_len ctx + length input > length (unprocessed_data ctx) then None
         else Some (PSA_SUCCESS,
                    ctx\<lparr>unprocessed_data :=
                           memcpy (unprocessed_data ctx) (unprocessed_len ctx) input,
                        unprocessed_len := unprocessed_len ctx + length input\<rparr>,
                    output, output_length))
      else Some (PSA_SUCCESS, ctx, output, output_length))"

text \<open>
  Lines 229 to 246: the loop that runs the full blocks one by one, followed by what
  comes after it. With a block size of 0 the loop ends only when the cipher module fails.
\<close>

partial_function (option) ecb_full_blocks ::
  "'e mbedtls_cipher \<Rightarrow> nat \<Rightarrow> 'e mbedtls_cipher_context_t \<Rightarrow> uint8_t list \<Rightarrow> uint8_t list
     \<Rightarrow> nat \<Rightarrow> (psa_status_t \<times> 'e mbedtls_cipher_context_t \<times> uint8_t list \<times> nat) option" where
  "ecb_full_blocks E bs ctx input output output_length =
     (if length input \<ge> bs then
        (case mbedtls_cipher_update E ctx (take bs input) of
           (ret, ctx', out) \<Rightarrow>
             if mbedtls_to_psa_error E ret \<noteq> PSA_SUCCESS then
               Some (mbedtls_to_psa_error E ret, ctx', output @ out, output_length)
             else
               ecb_full_blocks E bs ctx' (drop bs input) (output @ out)
                 (output_length + length out))
      else ecb_save_unprocessed ctx input output output_length)"

declare ecb_full_blocks.simps [code]

text \<open>
  \<^verbatim>\<open>block_size - ctx->unprocessed_len\<close> on \<^verbatim>\<open>size_t\<close>, taken as 64 bits wide: it wraps
  when more bytes are held than a block has.
\<close>

definition size_t_sub :: "nat \<Rightarrow> nat \<Rightarrow> nat" where
  "size_t_sub a b = (if b \<le> a then a - b else 2 ^ 64 + a - b)"

definition psa_cipher_update_ecb ::
  "'e mbedtls_cipher \<Rightarrow> 'e mbedtls_cipher_context_t \<Rightarrow> uint8_t list \<Rightarrow> nat
     \<Rightarrow> (psa_status_t \<times> 'e mbedtls_cipher_context_t \<times> uint8_t list \<times> nat) option" where
  "psa_cipher_update_ecb E ctx input output_size =
     (case cipher_info ctx of
        None \<Rightarrow> None
      | Some info \<Rightarrow>
          let bs = info_block_size info in
          if length input = 0 then Some (PSA_SUCCESS, ctx, [], 0)
          else if unprocessed_len ctx > 0 then
            (let bytes_to_copy = min (size_t_sub bs (unprocessed_len ctx)) (length input) in
             if unprocessed_len ctx + bytes_to_copy > length (unprocessed_data ctx) then None
             else
               let ctx = ctx\<lparr>unprocessed_data :=
                               memcpy (unprocessed_data ctx) (unprocessed_len ctx)
                                 (take bytes_to_copy input),
                             unprocessed_len := unprocessed_len ctx + bytes_to_copy\<rparr>;
                   input = drop bytes_to_copy input
               in
                 if unprocessed_len ctx = bs then
                   (case mbedtls_cipher_update E ctx (take bs (unprocessed_data ctx)) of
                      (ret, ctx', out) \<Rightarrow>
                        if mbedtls_to_psa_error E ret \<noteq> PSA_SUCCESS then
                          Some (mbedtls_to_psa_error E ret, ctx', out, 0)
                        else
                          ecb_full_blocks E bs (ctx'\<lparr>unprocessed_len := 0\<rparr>) input out
                            (length out))
                 else ecb_full_blocks E bs ctx input [] 0)
          else ecb_full_blocks E bs ctx input [] 0)"

subsection \<open>\<^verbatim>\<open>cipher_update\<close>\<close>

definition cipher_update ::
  "'e mbedtls_cipher \<Rightarrow> psa_crypto_values \<Rightarrow> 'e mbedtls_psa_cipher_operation_t \<Rightarrow> uint8_t list
     \<Rightarrow> nat \<Rightarrow> 'e cipher_result option" where
  "cipher_update E V operation input output_size =
     (if \<not> PSA_ALG_IS_STREAM_CIPHER V (alg operation) \<and> block_size operation = 0 then None
      else
        let expected_output_size =
              (if \<not> PSA_ALG_IS_STREAM_CIPHER V (alg operation) then
                 (unprocessed_len (op_cipher operation) + length input)
                   div block_size operation * block_size operation
               else length input)
        in
          if output_size < expected_output_size then
            Some \<lparr>res_status = PSA_ERROR_BUFFER_TOO_SMALL, res_operation = operation,
                  res_output = [], res_output_length = None\<rparr>
          else if alg operation = PSA_ALG_ECB_NO_PADDING V then
            (case psa_cipher_update_ecb E (op_cipher operation) input output_size of
               None \<Rightarrow> None
             | Some (status, ctx, out, output_length) \<Rightarrow>
                 Some \<lparr>res_status = status, res_operation = operation\<lparr>op_cipher := ctx\<rparr>,
                       res_output = out, res_output_length = Some output_length\<rparr>)
          else
            (case mbedtls_cipher_update E (op_cipher operation) input of
               (ret, ctx, out) \<Rightarrow>
                 Some \<lparr>res_status = mbedtls_to_psa_error E ret,
                       res_operation = operation\<lparr>op_cipher := ctx\<rparr>,
                       res_output = out, res_output_length = Some (length out)\<rparr>))"

subsection \<open>\<^verbatim>\<open>cipher_finish\<close>\<close>

text \<open>
  \<open>temp_output_buffer\<close> is the local array, given with the bytes it holds on entry; the
  second component of the result is what it holds when the function returns. Up to the
  label \<^verbatim>\<open>exit\<close>:
\<close>

definition cipher_finish_to_exit ::
  "'e mbedtls_cipher \<Rightarrow> psa_crypto_values \<Rightarrow> 'e mbedtls_psa_cipher_operation_t \<Rightarrow> uint8_t list
     \<Rightarrow> nat \<Rightarrow> ('e cipher_result \<times> uint8_t list) option" where
  "cipher_finish_to_exit E V operation temp_output_buffer output_size =
     (if unprocessed_len (op_cipher operation) \<noteq> 0 \<and>
         (alg operation = PSA_ALG_ECB_NO_PADDING V \<or> alg operation = PSA_ALG_CBC_NO_PADDING V)
      then
        Some (\<lparr>res_status = PSA_ERROR_INVALID_ARGUMENT, res_operation = operation,
                res_output = [], res_output_length = None\<rparr>, temp_output_buffer)
      else
        (case mbedtls_cipher_finish E (op_cipher operation) of
           (ret, ctx, written, olen) \<Rightarrow>
             let temp_output_buffer =
                   take (length temp_output_buffer)
                     (written @ drop (length written) temp_output_buffer);
                 operation = operation\<lparr>op_cipher := ctx\<rparr>;
                 status = mbedtls_to_psa_error E ret
             in
               if status \<noteq> PSA_SUCCESS then
                 Some (\<lparr>res_status = status, res_operation = operation,
                         res_output = [], res_output_length = Some olen\<rparr>, temp_output_buffer)
               else if olen = 0 then
                 Some (\<lparr>res_status = status, res_operation = operation,
                         res_output = [], res_output_length = Some olen\<rparr>, temp_output_buffer)
               else if output_size \<ge> olen then
                 (if olen > length temp_output_buffer then None
                  else
                    Some (\<lparr>res_status = status, res_operation = operation,
                            res_output = take olen temp_output_buffer,
                            res_output_length = Some olen\<rparr>, temp_output_buffer))
               else
                 Some (\<lparr>res_status = PSA_ERROR_BUFFER_TOO_SMALL, res_operation = operation,
                         res_output = [], res_output_length = Some olen\<rparr>,
                       temp_output_buffer)))"

definition cipher_finish ::
  "'e mbedtls_cipher \<Rightarrow> psa_crypto_values \<Rightarrow> 'e mbedtls_psa_cipher_operation_t \<Rightarrow> uint8_t list
     \<Rightarrow> nat \<Rightarrow> ('e cipher_result \<times> uint8_t list) option" where
  "cipher_finish E V operation temp_output_buffer output_size =
     (case cipher_finish_to_exit E V operation temp_output_buffer output_size of
        None \<Rightarrow> None
      | Some (r, temp_output_buffer) \<Rightarrow>
          Some (r, mbedtls_platform_zeroize temp_output_buffer (length temp_output_buffer)))"

subsection \<open>\<^verbatim>\<open>cipher_abort\<close>\<close>

definition cipher_abort ::
  "'e mbedtls_cipher \<Rightarrow> psa_crypto_values \<Rightarrow> 'e mbedtls_psa_cipher_operation_t
     \<Rightarrow> psa_status_t \<times> 'e mbedtls_psa_cipher_operation_t" where
  "cipher_abort E V operation =
     (if \<not> PSA_ALG_IS_CIPHER V (alg operation) then (PSA_ERROR_BAD_STATE, operation)
      else (PSA_SUCCESS, operation\<lparr>op_cipher := mbedtls_cipher_free E (op_cipher operation)\<rparr>))"

subsection \<open>Successive calls\<close>

text \<open>
  A caller feeding chunks through successive calls of \<open>cipher_update\<close>, each chunk with the
  capacity of the buffer it is given; the caller stops at the first call that fails. The
  result is the last status, the operation and the bytes written by all the calls.
\<close>

fun cipher_update_chunks ::
  "'e mbedtls_cipher \<Rightarrow> psa_crypto_values \<Rightarrow> 'e mbedtls_psa_cipher_operation_t
     \<Rightarrow> (uint8_t list \<times> nat) list
     \<Rightarrow> (psa_status_t \<times> 'e mbedtls_psa_cipher_operation_t \<times> uint8_t list) option" where
  "cipher_update_chunks E V operation [] = Some (PSA_SUCCESS, operation, [])"
| "cipher_update_chunks E V operation ((input, output_size) # chunks) =
     (case cipher_update E V operation input output_size of
        None \<Rightarrow> None
      | Some r \<Rightarrow>
          if res_status r \<noteq> PSA_SUCCESS then Some (res_status r, res_operation r, res_output r)
          else
            (case cipher_update_chunks E V (res_operation r) chunks of
               None \<Rightarrow> None
             | Some (status, operation', out) \<Rightarrow> Some (status, operation', res_output r @ out)))"

subsection \<open>Notions used in the statements\<close>

text \<open>
  The bytes held over between calls: the first \<open>unprocessed_len\<close> bytes of the array. What
  the array holds beyond them is left over from earlier blocks and is never read again.
\<close>

definition ecb_pending :: "'e mbedtls_cipher_context_t \<Rightarrow> uint8_t list" where
  "ecb_pending ctx = take (unprocessed_len ctx) (unprocessed_data ctx)"

text \<open>
  A context as a successful setup leaves it and the updates keep it: a cipher is selected,
  its block size is positive and fits the array, and fewer bytes than a block are held.
\<close>

definition ecb_ctx_ok :: "'e mbedtls_cipher_context_t \<Rightarrow> nat \<Rightarrow> bool" where
  "ecb_ctx_ok ctx bs \<longleftrightarrow>
     map_option info_block_size (cipher_info ctx) = Some bs \<and> 0 < bs \<and>
     bs \<le> length (unprocessed_data ctx) \<and> unprocessed_len ctx < bs"

text \<open>
  What the cipher module does in ECB mode, as the comment on lines 292 to 294 has it: a
  call of \<open>mbedtls_cipher_update\<close> transforms the block it is given with the cipher's block
  function \<open>f\<close>, which sees and changes nothing of the context but the cipher's own state.
\<close>

definition ecb_block_engine ::
  "'e mbedtls_cipher \<Rightarrow> ('e \<Rightarrow> uint8_t list \<Rightarrow> int \<times> 'e \<times> uint8_t list) \<Rightarrow> bool" where
  "ecb_block_engine E f \<longleftrightarrow>
     (\<forall>ctx blk. mbedtls_cipher_update E ctx blk =
        (case f (cipher_ctx ctx) blk of (ret, e, out) \<Rightarrow> (ret, ctx\<lparr>cipher_ctx := e\<rparr>, out)))"

text \<open>
  The block function run over a byte stream, block after block, until a block fails or
  less than a block is left: status, cipher state, bytes written, bytes counted, bytes left.
\<close>

function run_blocks ::
  "('e \<Rightarrow> uint8_t list \<Rightarrow> int \<times> 'e \<times> uint8_t list) \<Rightarrow> (int \<Rightarrow> psa_status_t) \<Rightarrow> nat \<Rightarrow> 'e
     \<Rightarrow> uint8_t list \<Rightarrow> psa_status_t \<times> 'e \<times> uint8_t list \<times> nat \<times> uint8_t list" where
  "run_blocks f T bs e s =
     (if bs = 0 \<or> length s < bs then (PSA_SUCCESS, e, [], 0, s)
      else
        (case f e (take bs s) of
           (ret, e', out) \<Rightarrow>
             if T ret \<noteq> PSA_SUCCESS then (T ret, e', out, 0, drop bs s)
             else
               (case run_blocks f T bs e' (drop bs s) of
                  (st, e'', w, n, rest) \<Rightarrow> (st, e'', out @ w, length out + n, rest))))"
  by pat_completeness auto
termination
  by (relation "measure (\<lambda>(f, T, bs, e, s). length s)") auto

declare run_blocks.simps [simp del]

subsection \<open>Concrete values for the examples\<close>

text \<open>
  The theorems below hold for any values of the macros. The examples take the values the
  PSA Crypto API gives them: \<open>0x04404400\<close> is raw ECB, \<open>0x04404000\<close> CBC without
  padding, \<open>0x04404100\<close> CBC with PKCS7 padding, \<open>0x04800100\<close> the stream cipher
  algorithm; \<open>0x2301\<close> is the key type DES, \<open>0x2400\<close> AES, \<open>0x2004\<close> ChaCha20.
\<close>

definition psa_header_values :: psa_crypto_values where
  "psa_header_values =
     \<lparr>PSA_ALG_IS_CIPHER = (\<lambda>a. a AND 0x7f000000 = 0x04000000),
      PSA_ALG_IS_STREAM_CIPHER = (\<lambda>a. a AND 0x7f800000 = 0x04800000),
      PSA_ALG_CIPHER_FROM_BLOCK_FLAG = 0x00400000,
      PSA_ALG_ECB_NO_PADDING = 0x04404400,
      PSA_ALG_CBC_NO_PADDING = 0x04404000,
      PSA_ALG_CBC_PKCS7 = 0x04404100,
      PSA_ALG_STREAM_CIPHER = 0x04800100,
      PSA_KEY_TYPE_DES = 0x2301,
      PSA_KEY_TYPE_CHACHA20 = 0x2004,
      PSA_BLOCK_CIPHER_BLOCK_LENGTH =
        (\<lambda>t. if t AND 0x7000 = 0x2000 then 2 ^ unat (drop_bit 8 t AND 7) else 0)\<rparr>"

text \<open>
  A small cipher module for the examples. Its state is a counter: a block is transformed
  by adding the counter to each byte, and the counter goes up with every block, so the
  order of the blocks shows in the output. Its finalisation writes one more block of
  four bytes and moves the counter on, as a chaining mode with padding does.
\<close>

definition sample_ecb_func :: "nat \<Rightarrow> uint8_t list \<Rightarrow> int \<times> nat \<times> uint8_t list" where
  "sample_ecb_func e blk = (0, Suc e, map (\<lambda>b. b + of_nat e) blk)"

definition sample_cipher :: "nat mbedtls_cipher" where
  "sample_cipher =
     \<lparr>mbedtls_cipher_init =
        (\<lambda>ctx. \<lparr>cipher_info = None, unprocessed_data = [0, 0, 0, 0], unprocessed_len = 0,
                cipher_ctx = 0\<rparr>),
      mbedtls_cipher_info_from_psa =
        (\<lambda>a t bits.
           if PSA_BLOCK_CIPHER_BLOCK_LENGTH psa_header_values t = 0 then None
           else Some \<lparr>info_block_size = PSA_BLOCK_CIPHER_BLOCK_LENGTH psa_header_values t,
                      info_ident = 0\<rparr>),
      mbedtls_cipher_setup = (\<lambda>ctx info. (0, ctx\<lparr>cipher_info := Some info\<rparr>)),
      mbedtls_cipher_setkey =
        (\<lambda>ctx key bits dir. (0, ctx\<lparr>cipher_ctx := sum_list (map unat key) + nat bits\<rparr>)),
      mbedtls_cipher_set_padding_mode = (\<lambda>ctx mode. (0, ctx)),
      mbedtls_cipher_update =
        (\<lambda>ctx blk. case sample_ecb_func (cipher_ctx ctx) blk of
                      (ret, e, out) \<Rightarrow> (ret, ctx\<lparr>cipher_ctx := e\<rparr>, out)),
      mbedtls_cipher_finish =
        (\<lambda>ctx. (0, ctx\<lparr>cipher_ctx := Suc (cipher_ctx ctx)\<rparr>,
                [of_nat (cipher_ctx ctx), of_nat (cipher_ctx ctx), of_nat (cipher_ctx ctx),
                 of_nat (cipher_ctx ctx)], 4)),
      mbedtls_cipher_free =
        (\<lambda>ctx. \<lparr>cipher_info = None, unprocessed_data = [0, 0, 0, 0], unprocessed_len = 0,
                cipher_ctx = 0\<rparr>),
      mbedtls_to_psa_error = (\<lambda>ret. if ret = 0 then PSA_SUCCESS else PSA_ERROR_other ret)\<rparr>"


definition failing_finish_cipher :: "nat mbedtls_cipher" where
  "failing_finish_cipher = sample_cipher\<lparr>mbedtls_cipher_finish := (\<lambda>ctx. (- 1, ctx, [], 0))\<rparr>"

text \<open>
  An operation of the sample module: algorithm, IV size, block size, the array of held
  bytes, how many of them are held, and the counter.
\<close>

definition sample_operation ::
  "psa_algorithm_t \<Rightarrow> nat \<Rightarrow> nat \<Rightarrow> uint8_t list \<Rightarrow> nat \<Rightarrow> nat
     \<Rightarrow> nat mbedtls_psa_cipher_operation_t" where
  "sample_operation a iv bs held n e =
     \<lparr>alg = a, iv_size = iv, block_size = bs,
      op_cipher = \<lparr>cipher_info = Some \<lparr>info_block_size = bs, info_ident = 0\<rparr>,
                   unprocessed_data = held, unprocessed_len = n, cipher_ctx = e\<rparr>\<rparr>"

section \<open>Lemmas\<close>

subsection \<open>The ECB path\<close>

lemma ecb_full_blocks_run:
  assumes H: "ecb_block_engine E f" and bs: "0 < bs"
  shows "ecb_full_blocks E bs ctx input outp olen =
    (case run_blocks f (mbedtls_to_psa_error E) bs (cipher_ctx ctx) input of
       (st, e, w, n, rest) \<Rightarrow>
         if st \<noteq> PSA_SUCCESS then Some (st, ctx\<lparr>cipher_ctx := e\<rparr>, outp @ w, olen + n)
         else ecb_save_unprocessed (ctx\<lparr>cipher_ctx := e\<rparr>) rest (outp @ w) (olen + n))"
proof (induction "length input" arbitrary: input ctx outp olen rule: less_induct)
  case less
  show ?case
  proof (cases "length input < bs")
    case True
    then show ?thesis
      using bs by (subst ecb_full_blocks.simps, subst run_blocks.simps) simp
  next
    case False
    obtain ret e out where f: "f (cipher_ctx ctx) (take bs input) = (ret, e, out)"
      by (cases "f (cipher_ctx ctx) (take bs input)") auto
    have upd: "mbedtls_cipher_update E ctx (take bs input) = (ret, ctx\<lparr>cipher_ctx := e\<rparr>, out)"
      using H f by (simp add: ecb_block_engine_def)
    have sm: "length (drop bs input) < length input"
      using False bs by simp
    show ?thesis
    proof (cases "mbedtls_to_psa_error E ret = PSA_SUCCESS")
      case True
      show ?thesis
        using False bs f upd True less [OF sm, of "ctx\<lparr>cipher_ctx := e\<rparr>" "outp @ out" "olen + length out"]
        by (subst ecb_full_blocks.simps, subst run_blocks.simps)
           (simp split: prod.splits add: ac_simps)
    next
      case F2: False
      show ?thesis
        using False bs f upd F2
        by (subst ecb_full_blocks.simps, subst run_blocks.simps) simp
    qed
  qed
qed

lemma run_blocks_success:
  "run_blocks f T bs e s = (PSA_SUCCESS, e', w, n, rest) \<Longrightarrow> 0 < bs \<Longrightarrow>
     n = length w \<and> length rest < bs"
proof (induction "length s" arbitrary: s e e' w n rest rule: less_induct)
  case less
  note prems = less.prems
  show ?case
  proof (cases "length s < bs")
    case True
    then show ?thesis using prems by (simp add: run_blocks.simps)
  next
    case False
    obtain ret e1 out where f: "f e (take bs s) = (ret, e1, out)"
      by (cases "f e (take bs s)") auto
    obtain st e2 w2 n2 r2 where r: "run_blocks f T bs e1 (drop bs s) = (st, e2, w2, n2, r2)"
      by (cases "run_blocks f T bs e1 (drop bs s)") auto
    have ok: "T ret = PSA_SUCCESS"
      using prems False f by (subst (asm) run_blocks.simps) (auto split: if_splits)
    have eq: "st = PSA_SUCCESS" "e' = e2" "w = out @ w2" "n = length out + n2" "rest = r2"
      using prems False f r ok by (subst (asm) run_blocks.simps, simp)+
    have "n2 = length w2 \<and> length r2 < bs"
      using less.hyps [of "drop bs s" e1 e2 w2 n2 r2] False r eq prems by simp
    then show ?thesis using eq by simp
  qed
qed

lemma run_blocks_short:
  "length s < bs \<Longrightarrow> run_blocks f T bs e s = (PSA_SUCCESS, e, [], 0, s)"
  by (simp add: run_blocks.simps)

lemma run_blocks_append:
  assumes "run_blocks f T bs e s = (PSA_SUCCESS, e1, w1, n1, r1)" and "0 < bs"
  shows "run_blocks f T bs e (s @ t) =
     (case run_blocks f T bs e1 (r1 @ t) of
        (st, e2, w2, n2, r2) \<Rightarrow> (st, e2, w1 @ w2, n1 + n2, r2))"
  using assms
proof (induction "length s" arbitrary: s e e1 w1 n1 r1 rule: less_induct)
  case less
  note prems = less.prems
  show ?case
  proof (cases "length s < bs")
    case True
    then show ?thesis using prems by (simp add: run_blocks_short split: prod.splits)
  next
    case False
    obtain ret e' out where f: "f e (take bs s) = (ret, e', out)"
      by (cases "f e (take bs s)") auto
    obtain st e2 w2 n2 r2 where r: "run_blocks f T bs e' (drop bs s) = (st, e2, w2, n2, r2)"
      by (cases "run_blocks f T bs e' (drop bs s)") auto
    have ok: "T ret = PSA_SUCCESS"
      using prems False f by (subst (asm) run_blocks.simps) (auto split: if_splits)
    have eq: "st = PSA_SUCCESS" "e1 = e2" "w1 = out @ w2" "n1 = length out + n2" "r1 = r2"
      using prems False f r ok by (subst (asm) run_blocks.simps, simp)+
    have IH: "run_blocks f T bs e' (drop bs s @ t) =
       (case run_blocks f T bs e2 (r2 @ t) of
          (st, e3, w3, n3, r3) \<Rightarrow> (st, e3, w2 @ w3, n2 + n3, r3))"
      using less.hyps [of "drop bs s" e' e2 w2 n2 r2] False r eq prems by simp
    have "run_blocks f T bs e (s @ t) =
       (case run_blocks f T bs e' (drop bs s @ t) of
          (st, e'', w, n, rest) \<Rightarrow> (st, e'', out @ w, length out + n, rest))"
      using False f ok prems(2) by (subst run_blocks.simps) simp
    then show ?thesis using IH eq by (simp split: prod.splits)
  qed
qed

lemma take_memcpy:
  "off \<le> length dst \<Longrightarrow> off + length src \<le> length dst \<Longrightarrow>
     take (off + length src) (memcpy dst off src) = take off dst @ src"
  by (simp add: memcpy_def)

lemma length_memcpy:
  "off + length src \<le> length dst \<Longrightarrow> length (memcpy dst off src) = length dst"
  by (simp add: memcpy_def)

lemma ecb_save_unprocessed_empty:
  assumes "unprocessed_len ctx = 0" and "length rest \<le> length (unprocessed_data ctx)"
  shows "\<exists>ctx'. ecb_save_unprocessed ctx rest w n = Some (PSA_SUCCESS, ctx', w, n) \<and>
           cipher_ctx ctx' = cipher_ctx ctx \<and> ecb_pending ctx' = rest \<and>
           unprocessed_len ctx' = length rest \<and> cipher_info ctx' = cipher_info ctx \<and>
           length (unprocessed_data ctx') = length (unprocessed_data ctx)"
  using assms take_memcpy [of 0 "unprocessed_data ctx" rest]
  by (auto simp: ecb_save_unprocessed_def ecb_pending_def length_memcpy)

lemma psa_cipher_update_ecb_run:
  assumes H: "ecb_block_engine E f" and ok: "ecb_ctx_ok ctx bs"
    and run: "run_blocks f (mbedtls_to_psa_error E) bs (cipher_ctx ctx) (ecb_pending ctx @ input) =
                (st, e, w, n, rest)"
  shows "st = PSA_SUCCESS \<Longrightarrow>
           \<exists>ctx'. psa_cipher_update_ecb E ctx input output_size = Some (PSA_SUCCESS, ctx', w, length w) \<and>
             cipher_ctx ctx' = e \<and> ecb_pending ctx' = rest \<and> unprocessed_len ctx' = length rest \<and>
             cipher_info ctx' = cipher_info ctx \<and>
             length (unprocessed_data ctx') = length (unprocessed_data ctx)"
    and "st \<noteq> PSA_SUCCESS \<Longrightarrow>
           \<exists>ctx' w' n'. psa_cipher_update_ecb E ctx input output_size = Some (st, ctx', w', n')"
proof -
  obtain info where info: "cipher_info ctx = Some info" "info_block_size info = bs"
    using ok by (auto simp: ecb_ctx_ok_def)
  have bs: "0 < bs" "bs \<le> length (unprocessed_data ctx)" "unprocessed_len ctx < bs"
    using ok by (auto simp: ecb_ctx_ok_def)
  have lp: "length (ecb_pending ctx) = unprocessed_len ctx"
    using bs by (simp add: ecb_pending_def)
  note fb = ecb_full_blocks_run [OF H bs(1)]
  have goal: "(st = PSA_SUCCESS \<longrightarrow>
           (\<exists>ctx'. psa_cipher_update_ecb E ctx input output_size = Some (PSA_SUCCESS, ctx', w, length w) \<and>
             cipher_ctx ctx' = e \<and> ecb_pending ctx' = rest \<and> unprocessed_len ctx' = length rest \<and>
             cipher_info ctx' = cipher_info ctx \<and>
             length (unprocessed_data ctx') = length (unprocessed_data ctx))) \<and>
         (st \<noteq> PSA_SUCCESS \<longrightarrow>
           (\<exists>ctx' w' n'. psa_cipher_update_ecb E ctx input output_size = Some (st, ctx', w', n')))"
  proof (cases "input = []")
    case True
    then have "st = PSA_SUCCESS \<and> e = cipher_ctx ctx \<and> w = [] \<and> rest = ecb_pending ctx"
      using run lp bs by (simp add: run_blocks_short)
    then show ?thesis
      using True info lp by (simp add: psa_cipher_update_ecb_def)
  next
    case ne: False
    show ?thesis
    proof (cases "unprocessed_len ctx = 0")
      case True
      then have pe: "ecb_pending ctx = []" by (simp add: ecb_pending_def)
      have psa: "psa_cipher_update_ecb E ctx input output_size = ecb_full_blocks E bs ctx input [] 0"
        using ne True info by (simp add: psa_cipher_update_ecb_def)
      show ?thesis
      proof (cases "st = PSA_SUCCESS")
        case s: True
        then have nr: "n = length w" "length rest < bs"
          using run_blocks_success [of f _ bs _ _ e w n rest] run bs by auto
        have "\<exists>ctx'. ecb_save_unprocessed (ctx\<lparr>cipher_ctx := e\<rparr>) rest w n = Some (PSA_SUCCESS, ctx', w, n) \<and>
           cipher_ctx ctx' = cipher_ctx (ctx\<lparr>cipher_ctx := e\<rparr>) \<and> ecb_pending ctx' = rest \<and>
           unprocessed_len ctx' = length rest \<and> cipher_info ctx' = cipher_info (ctx\<lparr>cipher_ctx := e\<rparr>) \<and>
           length (unprocessed_data ctx') = length (unprocessed_data (ctx\<lparr>cipher_ctx := e\<rparr>))"
          using True nr bs by (intro ecb_save_unprocessed_empty) auto
        then show ?thesis
          using s psa fb [of ctx input "[]" 0] run pe nr by auto
      next
        case False
        then show ?thesis
          using psa fb [of ctx input "[]" 0] run pe by auto
      qed
    next
      case pos: False
      define k where "k = min (bs - unprocessed_len ctx) (length input)"
      have sub: "size_t_sub bs (unprocessed_len ctx) = bs - unprocessed_len ctx"
        using bs by (simp add: size_t_sub_def)
      define ctx1 where "ctx1 = ctx\<lparr>unprocessed_data :=
                               memcpy (unprocessed_data ctx) (unprocessed_len ctx) (take k input),
                             unprocessed_len := unprocessed_len ctx + k\<rparr>"
      have kl: "k \<le> length input" "unprocessed_len ctx + k \<le> bs" "0 < k"
        using bs ne by (auto simp: k_def)
      have p1: "ecb_pending ctx1 = ecb_pending ctx @ take k input"
        using take_memcpy [of "unprocessed_len ctx" "unprocessed_data ctx" "take k input"] kl bs
        by (simp add: ctx1_def ecb_pending_def min_absorb2)
      have l1: "length (unprocessed_data ctx1) = length (unprocessed_data ctx)"
        using kl bs by (simp add: ctx1_def length_memcpy min_absorb2)
      have psa: "psa_cipher_update_ecb E ctx input output_size =
           (if unprocessed_len ctx1 = bs then
                   (case mbedtls_cipher_update E ctx1 (take bs (unprocessed_data ctx1)) of
                      (ret, ctx', out) \<Rightarrow>
                        if mbedtls_to_psa_error E ret \<noteq> PSA_SUCCESS then
                          Some (mbedtls_to_psa_error E ret, ctx', out, 0)
                        else
                          ecb_full_blocks E bs (ctx'\<lparr>unprocessed_len := 0\<rparr>) (drop k input) out
                            (length out))
                 else ecb_full_blocks E bs ctx1 (drop k input) [] 0)"
        using ne pos info sub kl bs
        by (simp add: psa_cipher_update_ecb_def Let_def k_def [symmetric] ctx1_def [symmetric])
      show ?thesis
      proof (cases "unprocessed_len ctx + k = bs")
        case short: False
        then have ki: "k = length input" "unprocessed_len ctx + length input < bs"
          using kl by (auto simp: k_def)
        have r: "st = PSA_SUCCESS \<and> e = cipher_ctx ctx \<and> w = [] \<and> rest = ecb_pending ctx @ input"
          using run lp ki by (simp add: run_blocks_short)
        have "psa_cipher_update_ecb E ctx input output_size = Some (PSA_SUCCESS, ctx1, [], 0)"
          using psa short ki bs
          by (subst (asm) ecb_full_blocks.simps) (simp add: ctx1_def ecb_save_unprocessed_def)
        then show ?thesis
          using r p1 ki l1 lp by (simp add: ctx1_def)
      next
        case full: True
        have kb: "k = bs - unprocessed_len ctx"
          using full by simp
        have blk: "take bs (unprocessed_data ctx1) = take bs (ecb_pending ctx @ input)"
          using p1 full lp kl kb by (simp add: ecb_pending_def ctx1_def)
        have dr: "drop bs (ecb_pending ctx @ input) = drop k input"
          using full lp kb by simp
        obtain ret e1 out where f: "f (cipher_ctx ctx) (take bs (ecb_pending ctx @ input)) = (ret, e1, out)"
          by (cases "f (cipher_ctx ctx) (take bs (ecb_pending ctx @ input))") auto
        have upd: "mbedtls_cipher_update E ctx1 (take bs (unprocessed_data ctx1)) =
                     (ret, ctx1\<lparr>cipher_ctx := e1\<rparr>, out)"
          using H f blk by (simp add: ecb_block_engine_def ctx1_def)
        have long: "\<not> length (ecb_pending ctx @ input) < bs"
          using full lp kl by simp
        show ?thesis
        proof (cases "mbedtls_to_psa_error E ret = PSA_SUCCESS")
          case False
          then have "st = mbedtls_to_psa_error E ret"
            using run long f bs by (subst (asm) run_blocks.simps) simp
          then show ?thesis
            using psa full upd False by (simp add: ctx1_def)
        next
          case tok: True
          obtain st2 e2 w2 n2 r2 where
            r2: "run_blocks f (mbedtls_to_psa_error E) bs e1 (drop k input) = (st2, e2, w2, n2, r2)"
            by (cases "run_blocks f (mbedtls_to_psa_error E) bs e1 (drop k input)") auto
          have eq: "st = st2" "e = e2" "w = out @ w2" "n = length out + n2" "rest = r2"
            using run long f bs tok r2 dr by (subst (asm) run_blocks.simps, simp)+
          define ctx2 where "ctx2 = ctx1\<lparr>cipher_ctx := e1, unprocessed_len := 0\<rparr>"
          have psa2: "psa_cipher_update_ecb E ctx input output_size =
                  ecb_full_blocks E bs ctx2 (drop k input) out (length out)"
            using psa full upd tok by (simp add: ctx1_def ctx2_def)
          show ?thesis
          proof (cases "st = PSA_SUCCESS")
            case s: True
            then have nr: "n2 = length w2" "length r2 < bs"
              using run_blocks_success [of f _ bs e1 _ e2 w2 n2 r2] r2 eq bs by auto
            have "\<exists>ctx'. ecb_save_unprocessed (ctx2\<lparr>cipher_ctx := e2\<rparr>) r2 (out @ w2) (length out + n2)
                     = Some (PSA_SUCCESS, ctx', out @ w2, length out + n2) \<and>
               cipher_ctx ctx' = cipher_ctx (ctx2\<lparr>cipher_ctx := e2\<rparr>) \<and> ecb_pending ctx' = r2 \<and>
               unprocessed_len ctx' = length r2 \<and> cipher_info ctx' = cipher_info (ctx2\<lparr>cipher_ctx := e2\<rparr>) \<and>
               length (unprocessed_data ctx') = length (unprocessed_data (ctx2\<lparr>cipher_ctx := e2\<rparr>))"
              using nr bs l1 by (intro ecb_save_unprocessed_empty) (auto simp: ctx2_def)
            then show ?thesis
              using s psa2 fb [of ctx2 "drop k input" out "length out"] r2 eq nr l1
              by (auto simp: ctx2_def ctx1_def)
          next
            case False
            then show ?thesis
              using psa2 fb [of ctx2 "drop k input" out "length out"] r2 eq
              by (auto simp: ctx2_def)
          qed
        qed
      qed
    qed
  qed
  show "st = PSA_SUCCESS \<Longrightarrow>
           \<exists>ctx'. psa_cipher_update_ecb E ctx input output_size = Some (PSA_SUCCESS, ctx', w, length w) \<and>
             cipher_ctx ctx' = e \<and> ecb_pending ctx' = rest \<and> unprocessed_len ctx' = length rest \<and>
             cipher_info ctx' = cipher_info ctx \<and>
             length (unprocessed_data ctx') = length (unprocessed_data ctx)"
    using goal by blast
  show "st \<noteq> PSA_SUCCESS \<Longrightarrow>
           \<exists>ctx' w' n'. psa_cipher_update_ecb E ctx input output_size = Some (st, ctx', w', n')"
    using goal by blast
qed

lemma cipher_update_ecb_success:
  assumes "cipher_update E V operation input output_size = Some r"
    and "res_status r = PSA_SUCCESS" and "alg operation = PSA_ALG_ECB_NO_PADDING V"
  shows "\<exists>ctx n. psa_cipher_update_ecb E (op_cipher operation) input output_size =
            Some (PSA_SUCCESS, ctx, res_output r, n) \<and>
          res_operation r = operation\<lparr>op_cipher := ctx\<rparr>"
  using assms
  by (auto simp: cipher_update_def Let_def split: if_splits option.splits prod.splits)

lemma cipher_update_chunks_run:
  assumes H: "ecb_block_engine E f"
  shows "alg operation = PSA_ALG_ECB_NO_PADDING V \<Longrightarrow> ecb_ctx_ok (op_cipher operation) bs \<Longrightarrow>
     cipher_update_chunks E V operation chunks = Some (PSA_SUCCESS, operation1, out1) \<Longrightarrow>
     (\<exists>n. run_blocks f (mbedtls_to_psa_error E) bs (cipher_ctx (op_cipher operation))
            (ecb_pending (op_cipher operation) @ concat (map fst chunks)) =
          (PSA_SUCCESS, cipher_ctx (op_cipher operation1), out1, n,
           ecb_pending (op_cipher operation1))) \<and>
     unprocessed_len (op_cipher operation1) = length (ecb_pending (op_cipher operation1)) \<and>
     cipher_info (op_cipher operation1) = cipher_info (op_cipher operation) \<and>
     alg operation1 = alg operation \<and> iv_size operation1 = iv_size operation \<and>
     block_size operation1 = block_size operation"
proof (induction chunks arbitrary: operation out1)
  case Nil
  then have "length (ecb_pending (op_cipher operation)) = unprocessed_len (op_cipher operation)"
    by (simp add: ecb_pending_def ecb_ctx_ok_def)
  then show ?case
    using Nil by (simp add: run_blocks_short ecb_ctx_ok_def)
next
  case (Cons c chunks)
  obtain input output_size where c: "c = (input, output_size)" by (cases c) auto
  let ?ctx = "op_cipher operation"
  obtain r where r: "cipher_update E V operation input output_size = Some r"
    using Cons.prems(3) c by (auto split: option.splits)
  have rs: "res_status r = PSA_SUCCESS"
    using Cons.prems(3) c r by (auto split: if_splits)
  obtain out2 where rest: "cipher_update_chunks E V (res_operation r) chunks =
      Some (PSA_SUCCESS, operation1, out2)" and o1: "out1 = res_output r @ out2"
    using Cons.prems(3) c r rs by (auto split: option.splits)
  obtain ctx n where ecb: "psa_cipher_update_ecb E ?ctx input output_size =
            Some (PSA_SUCCESS, ctx, res_output r, n)"
      and ro: "res_operation r = operation\<lparr>op_cipher := ctx\<rparr>"
    using cipher_update_ecb_success [OF r rs Cons.prems(1)] by blast
  obtain st e w m rest' where run:
    "run_blocks f (mbedtls_to_psa_error E) bs (cipher_ctx ?ctx) (ecb_pending ?ctx @ input) =
       (st, e, w, m, rest')"
    by (cases "run_blocks f (mbedtls_to_psa_error E) bs (cipher_ctx ?ctx) (ecb_pending ?ctx @ input)")
       auto
  have st: "st = PSA_SUCCESS"
    using psa_cipher_update_ecb_run(2) [OF H Cons.prems(2) run, of output_size] ecb by auto
  have facts: "w = res_output r" "cipher_ctx ctx = e" "ecb_pending ctx = rest'"
      "unprocessed_len ctx = length rest'" "cipher_info ctx = cipher_info ?ctx"
      "length (unprocessed_data ctx) = length (unprocessed_data ?ctx)"
    using psa_cipher_update_ecb_run(1) [OF H Cons.prems(2) run st, of output_size] ecb by auto
  have bs: "0 < bs" using Cons.prems(2) by (simp add: ecb_ctx_ok_def)
  have lr: "length rest' < bs"
    using run_blocks_success [of f _ bs _ _ e w m rest'] run st bs by simp
  have ok': "ecb_ctx_ok (op_cipher (res_operation r)) bs"
    using Cons.prems(2) facts lr ro by (simp add: ecb_ctx_ok_def)
  have alg': "alg (res_operation r) = PSA_ALG_ECB_NO_PADDING V"
    using ro Cons.prems(1) by simp
  note IH = Cons.IH [OF alg' ok' rest]
  then obtain n2 where run2:
    "run_blocks f (mbedtls_to_psa_error E) bs e (rest' @ concat (map fst chunks)) =
          (PSA_SUCCESS, cipher_ctx (op_cipher operation1), out2, n2,
           ecb_pending (op_cipher operation1))"
    using ro facts by auto
  from run st have run':
    "run_blocks f (mbedtls_to_psa_error E) bs (cipher_ctx ?ctx) (ecb_pending ?ctx @ input) =
       (PSA_SUCCESS, e, w, m, rest')"
    by simp
  have "run_blocks f (mbedtls_to_psa_error E) bs (cipher_ctx ?ctx)
            (ecb_pending ?ctx @ input @ concat (map fst chunks)) =
          (PSA_SUCCESS, cipher_ctx (op_cipher operation1), w @ out2, m + n2,
           ecb_pending (op_cipher operation1))"
    using run_blocks_append [OF run' bs, of "concat (map fst chunks)"] run2 by simp
  then show ?case
    using IH ro facts o1 c by auto
qed

lemma ecb_full_blocks_status:
  assumes "ecb_full_blocks (E :: 'e mbedtls_cipher) bs ctx input outp n = Some y"
  shows "fst y = PSA_SUCCESS \<or>
     (\<exists>c i. fst y = mbedtls_to_psa_error E (fst (mbedtls_cipher_update E c i)))"
proof (rule ecb_full_blocks.raw_induct
    [where P = "\<lambda>E bs ctx input outp n y. fst y = PSA_SUCCESS \<or>
       (\<exists>c i. fst y = mbedtls_to_psa_error E (fst (mbedtls_cipher_update E c i)))",
     OF _ assms])
  fix loop :: "'e mbedtls_cipher \<Rightarrow> nat \<Rightarrow> 'e mbedtls_cipher_context_t \<Rightarrow> uint8_t list
      \<Rightarrow> uint8_t list \<Rightarrow> nat
      \<Rightarrow> (psa_status_t \<times> 'e mbedtls_cipher_context_t \<times> uint8_t list \<times> nat) option"
    and E bs ctx input outp n y
  assume IH: "\<And>E bs ctx input outp n y. loop E bs ctx input outp n = Some y \<Longrightarrow>
      fst y = PSA_SUCCESS \<or>
      (\<exists>c i. fst y = mbedtls_to_psa_error E (fst (mbedtls_cipher_update E c i)))"
  assume body: "(if bs \<le> length input
      then case mbedtls_cipher_update E ctx (take bs input) of
           (ret, ctx', out) \<Rightarrow>
             if mbedtls_to_psa_error E ret \<noteq> PSA_SUCCESS
             then Some (mbedtls_to_psa_error E ret, ctx', outp @ out, n)
             else loop E bs ctx' (drop bs input) (outp @ out) (n + length out)
      else ecb_save_unprocessed ctx input outp n) = Some y"
  show "fst y = PSA_SUCCESS \<or>
      (\<exists>c i. fst y = mbedtls_to_psa_error E (fst (mbedtls_cipher_update E c i)))"
  proof (cases "bs \<le> length input")
    case False
    then show ?thesis
      using body by (auto simp: ecb_save_unprocessed_def split: if_splits)
  next
    case True
    obtain ret ctx' out where u: "mbedtls_cipher_update E ctx (take bs input) = (ret, ctx', out)"
      by (cases "mbedtls_cipher_update E ctx (take bs input)") auto
    have r: "ret = fst (mbedtls_cipher_update E ctx (take bs input))"
      using u by simp
    show ?thesis
    proof (cases "mbedtls_to_psa_error E ret = PSA_SUCCESS")
      case ok: True
      then have "loop E bs ctx' (drop bs input) (outp @ out) (n + length out) = Some y"
        using body True u by simp
      then show ?thesis by (rule IH)
    next
      case False
      then have "fst y = mbedtls_to_psa_error E ret"
        using body True u by auto
      then show ?thesis using r by blast
    qed
  qed
qed

lemma psa_cipher_update_ecb_status:
  assumes "psa_cipher_update_ecb E ctx input output_size = Some y"
  shows "fst y = PSA_SUCCESS \<or>
     (\<exists>c i. fst y = mbedtls_to_psa_error E (fst (mbedtls_cipher_update E c i)))"
proof -
  obtain info where info: "cipher_info ctx = Some info"
    using assms by (cases "cipher_info ctx") (simp_all add: psa_cipher_update_ecb_def)
  define bs where "bs = info_block_size info"
  define k where "k = min (size_t_sub bs (unprocessed_len ctx)) (length input)"
  define ctx1 where "ctx1 = ctx\<lparr>unprocessed_data :=
                     memcpy (unprocessed_data ctx) (unprocessed_len ctx) (take k input),
                   unprocessed_len := unprocessed_len ctx + k\<rparr>"
  show ?thesis
  proof (cases "length input = 0")
    case True
    then show ?thesis
      using assms info by (auto simp: psa_cipher_update_ecb_def)
  next
    case ne: False
    show ?thesis
    proof (cases "unprocessed_len ctx > 0")
      case False
      then have "ecb_full_blocks E bs ctx input [] 0 = Some y"
        using assms info ne by (simp add: psa_cipher_update_ecb_def bs_def)
      then show ?thesis by (rule ecb_full_blocks_status)
    next
      case pos: True
      have fits: "\<not> unprocessed_len ctx + k > length (unprocessed_data ctx)"
        using assms info ne pos
        by (simp add: psa_cipher_update_ecb_def Let_def bs_def [symmetric] k_def [symmetric]
            split: if_splits)
      have psa: "(if unprocessed_len ctx1 = bs then
                   (case mbedtls_cipher_update E ctx1 (take bs (unprocessed_data ctx1)) of
                      (ret, ctx', out) \<Rightarrow>
                        if mbedtls_to_psa_error E ret \<noteq> PSA_SUCCESS then
                          Some (mbedtls_to_psa_error E ret, ctx', out, 0)
                        else
                          ecb_full_blocks E bs (ctx'\<lparr>unprocessed_len := 0\<rparr>) (drop k input) out
                            (length out))
                 else ecb_full_blocks E bs ctx1 (drop k input) [] 0) = Some y"
        using assms info ne pos fits
        by (simp add: psa_cipher_update_ecb_def Let_def bs_def [symmetric] k_def [symmetric]
            ctx1_def [symmetric])
      show ?thesis
      proof (cases "unprocessed_len ctx1 = bs")
        case False
        then have "ecb_full_blocks E bs ctx1 (drop k input) [] 0 = Some y"
          using psa by simp
        then show ?thesis by (rule ecb_full_blocks_status)
      next
        case True
        obtain ret ctx' out where
          u: "mbedtls_cipher_update E ctx1 (take bs (unprocessed_data ctx1)) = (ret, ctx', out)"
          by (cases "mbedtls_cipher_update E ctx1 (take bs (unprocessed_data ctx1))") auto
        have r: "ret = fst (mbedtls_cipher_update E ctx1 (take bs (unprocessed_data ctx1)))"
          using u by simp
        show ?thesis
        proof (cases "mbedtls_to_psa_error E ret = PSA_SUCCESS")
          case False
          then have "fst y = mbedtls_to_psa_error E ret"
            using psa True u by auto
          then show ?thesis using r by blast
        next
          case ok: True
          then have "ecb_full_blocks E bs (ctx'\<lparr>unprocessed_len := 0\<rparr>) (drop k input) out
                            (length out) = Some y"
            using psa True u by simp
          then show ?thesis by (rule ecb_full_blocks_status)
        qed
      qed
    qed
  qed
qed



lemmas sample_defs = cipher_update_def sample_operation_def psa_header_values_def sample_cipher_def
    psa_cipher_update_ecb_def ecb_save_unprocessed_def size_t_sub_def memcpy_def
    sample_ecb_func_def Let_def

subsection \<open>Setup\<close>

lemma cipher_setup_sizes_iv_size:
  "iv_size (cipher_setup_sizes V operation a key_type) =
     (if (a AND PSA_ALG_CIPHER_FROM_BLOCK_FLAG V) \<noteq> 0 \<and> a \<noteq> PSA_ALG_ECB_NO_PADDING V then
        PSA_BLOCK_CIPHER_BLOCK_LENGTH V key_type
      else if a = PSA_ALG_STREAM_CIPHER V \<and> key_type = PSA_KEY_TYPE_CHACHA20 V then 12
      else iv_size operation)"
  by (simp add: cipher_setup_sizes_def Let_def)

lemma cipher_setup_sizes_alg:
  "alg (cipher_setup_sizes V operation a key_type) = alg operation"
  by (simp add: cipher_setup_sizes_def Let_def)

text \<open>
  The exits of \<open>cipher_setup\<close>: the early return, the three jumps to \<^verbatim>\<open>exit\<close> with a
  return code that is not 0, and the end of the function, reached with the return code 0.
\<close>

lemma cipher_setup_exits:
  assumes "cipher_setup E V operation attributes key_buffer a dir = Some (st, operation')"
  shows "alg operation' = a \<and>
     (iv_size operation' = iv_size operation \<and>
        (st = PSA_ERROR_NOT_SUPPORTED \<or> (\<exists>ret. ret \<noteq> 0 \<and> st = mbedtls_to_psa_error E ret)) \<or>
      st = mbedtls_to_psa_error E 0 \<and>
        (\<exists>ctx. operation' =
           cipher_setup_sizes V (operation\<lparr>alg := a, op_cipher := ctx\<rparr>) a (core_type attributes)))"
proof (cases "mbedtls_cipher_info_from_psa E a (core_type attributes) (core_bits attributes)")
  case None
  then show ?thesis
    using assms by (auto simp: cipher_setup_def Let_def)
next
  case (Some info)
  obtain r1 c1 where s1: "mbedtls_cipher_setup E (mbedtls_cipher_init E (op_cipher operation)) info = (r1, c1)"
    by (cases "mbedtls_cipher_setup E (mbedtls_cipher_init E (op_cipher operation)) info") auto
  show ?thesis
  proof (cases "r1 = 0")
    case False
    then show ?thesis
      using assms Some s1 by (auto simp: cipher_setup_def Let_def)
  next
    case r10: True
    obtain r2 c2 where s2: "cipher_setup_setkey E V c1 (core_type attributes) (core_bits attributes)
        key_buffer dir = Some (r2, c2)"
      using assms Some s1 r10
      by (cases "cipher_setup_setkey E V c1 (core_type attributes) (core_bits attributes)
        key_buffer dir") (auto simp: cipher_setup_def Let_def)
    show ?thesis
    proof (cases "r2 = 0")
      case False
      then show ?thesis
        using assms Some s1 r10 s2 by (auto simp: cipher_setup_def Let_def)
    next
      case r20: True
      obtain r3 c3 where s3: "cipher_setup_padding E V c2 a = (r3, c3)"
        by (cases "cipher_setup_padding E V c2 a") auto
      show ?thesis
      proof (cases "r3 = 0")
        case False
        then show ?thesis
          using assms Some s1 r10 s2 r20 s3 by (auto simp: cipher_setup_def Let_def)
      next
        case True
        then have "st = mbedtls_to_psa_error E 0"
          and "operation' = cipher_setup_sizes V (operation\<lparr>alg := a, op_cipher := c3\<rparr>) a
                 (core_type attributes)"
          using assms Some s1 r10 s2 r20 s3 by (auto simp: cipher_setup_def Let_def)
        then show ?thesis
          by (auto simp: cipher_setup_sizes_alg)
      qed
    qed
  qed
qed

lemmas setup_sample_defs = cipher_setup_def cipher_setup_setkey_def cipher_setup_padding_def
  cipher_setup_sizes_def sample_operation_def psa_header_values_def sample_cipher_def Let_def

lemmas finish_sample_defs = cipher_finish_def cipher_finish_to_exit_def
  mbedtls_platform_zeroize_def sample_operation_def psa_header_values_def sample_cipher_def
  failing_finish_cipher_def Let_def

subsection \<open>Finish\<close>

text \<open>
  \<open>cipher_finish\<close> returns whenever the finalisation of the cipher module reports no more
  bytes than the scratch buffer has.
\<close>

lemma cipher_finish_returns:
  assumes "snd (snd (snd (mbedtls_cipher_finish E (op_cipher operation)))) \<le>
             length temp_output_buffer"
  shows "\<exists>r scratch. cipher_finish E V operation temp_output_buffer output_size =
           Some (r, scratch)"
proof -
  obtain ret ctx written olen where
    e: "mbedtls_cipher_finish E (op_cipher operation) = (ret, ctx, written, olen)"
    by (cases "mbedtls_cipher_finish E (op_cipher operation)") auto
  then have "olen \<le> length temp_output_buffer"
    using assms by simp
  then have "\<exists>r t. cipher_finish_to_exit E V operation temp_output_buffer output_size =
      Some (r, t)"
    using e by (auto simp: cipher_finish_to_exit_def Let_def)
  then show ?thesis
    by (auto simp: cipher_finish_def)
qed

section \<open>The claims\<close>

subsection \<open>C1\<close>

text \<open>
  C1. For an operation set up with the raw ECB algorithm, feeding an input in chunks
  through successive update calls gives, when the calls succeed, the same output bytes
  and leaves the same bytes held over as one update call with the whole input; byte by
  byte is one such chunking. Here: the context is as a setup leaves it, the cipher module
  transforms single blocks in ECB mode, every call of the chunked run succeeds, and the
  single call is given the capacity its own check asks for. Then the single call
  succeeds, writes the concatenation of the outputs of the chunked run, reports its length,
  and ends with the same held bytes, the same number of them, the same cipher state and
  the same other fields. (The array may differ beyond the held bytes, in bytes of blocks
  already processed: see \<open>ecb_stale_bytes_example\<close>.)
\<close>

theorem ecb_chunked_update_equals_single_update:
  assumes "ecb_block_engine E f"
    and "alg operation = PSA_ALG_ECB_NO_PADDING V"
    and "ecb_ctx_ok (op_cipher operation) bs"
    and "cipher_update_chunks E V operation chunks = Some (PSA_SUCCESS, operation1, out1)"
    and "\<not> PSA_ALG_IS_STREAM_CIPHER V (alg operation)"
    and "0 < block_size operation"
    and "(unprocessed_len (op_cipher operation) + length (concat (map fst chunks)))
           div block_size operation * block_size operation \<le> output_size"
  shows "\<exists>r. cipher_update E V operation (concat (map fst chunks)) output_size = Some r \<and>
           res_status r = PSA_SUCCESS \<and> res_output r = out1 \<and>
           res_output_length r = Some (length out1) \<and>
           unprocessed_len (op_cipher (res_operation r)) = unprocessed_len (op_cipher operation1) \<and>
           ecb_pending (op_cipher (res_operation r)) = ecb_pending (op_cipher operation1) \<and>
           cipher_ctx (op_cipher (res_operation r)) = cipher_ctx (op_cipher operation1) \<and>
           cipher_info (op_cipher (res_operation r)) = cipher_info (op_cipher operation1) \<and>
           alg (res_operation r) = alg operation1 \<and>
           iv_size (res_operation r) = iv_size operation1 \<and>
           block_size (res_operation r) = block_size operation1"
proof -
  let ?ctx = "op_cipher operation" and ?whole = "concat (map fst chunks)"
  from cipher_update_chunks_run [OF assms(1,2,3,4)]
  obtain n where run: "run_blocks f (mbedtls_to_psa_error E) bs (cipher_ctx ?ctx)
            (ecb_pending ?ctx @ ?whole) =
          (PSA_SUCCESS, cipher_ctx (op_cipher operation1), out1, n,
           ecb_pending (op_cipher operation1))"
    and rest: "unprocessed_len (op_cipher operation1) = length (ecb_pending (op_cipher operation1))"
     "cipher_info (op_cipher operation1) = cipher_info ?ctx"
     "alg operation1 = alg operation" "iv_size operation1 = iv_size operation"
     "block_size operation1 = block_size operation"
    by auto
  from psa_cipher_update_ecb_run(1) [OF assms(1,3) run, of output_size]
  obtain ctx' where ecb: "psa_cipher_update_ecb E ?ctx ?whole output_size =
        Some (PSA_SUCCESS, ctx', out1, length out1)"
    and c': "cipher_ctx ctx' = cipher_ctx (op_cipher operation1)"
      "ecb_pending ctx' = ecb_pending (op_cipher operation1)"
      "unprocessed_len ctx' = length (ecb_pending (op_cipher operation1))"
      "cipher_info ctx' = cipher_info ?ctx"
    by auto
  have "cipher_update E V operation ?whole output_size =
      Some \<lparr>res_status = PSA_SUCCESS, res_operation = operation\<lparr>op_cipher := ctx'\<rparr>,
            res_output = out1, res_output_length = Some (length out1)\<rparr>"
    using assms(2,5,6,7) ecb by (simp add: cipher_update_def Let_def)
  then show ?thesis
    using c' rest by simp
qed

theorem ecb_chunked_update_equals_single_update_witness:
  "ecb_block_engine sample_cipher sample_ecb_func \<and>
   ecb_ctx_ok (op_cipher (sample_operation 0x04404400 0 2 [0, 0, 0, 0] 0 7)) 2 \<and>
   cipher_update_chunks sample_cipher psa_header_values
       (sample_operation 0x04404400 0 2 [0, 0, 0, 0] 0 7)
       [([1], 0), ([2], 2), ([3], 0), ([4], 2), ([5], 0)] =
     Some (PSA_SUCCESS, sample_operation 0x04404400 0 2 [5, 4, 0, 0] 1 9, [8, 9, 11, 12]) \<and>
   (\<exists>r. cipher_update sample_cipher psa_header_values
          (sample_operation 0x04404400 0 2 [0, 0, 0, 0] 0 7) [1, 2, 3, 4, 5] 4 = Some r \<and>
        res_status r = PSA_SUCCESS \<and> res_output r = [8, 9, 11, 12] \<and>
        res_output_length r = Some 4 \<and>
        unprocessed_len (op_cipher (res_operation r)) = 1 \<and>
        ecb_pending (op_cipher (res_operation r)) = [5] \<and>
        cipher_ctx (op_cipher (res_operation r)) = 9)"
proof -
  let ?op = "sample_operation 0x04404400 0 2 [0, 0, 0, 0] 0 7"
  let ?op1 = "sample_operation 0x04404400 0 2 [5, 4, 0, 0] 1 9"
  let ?chunks = "[([1], 0), ([2], 2), ([3], 0), ([4], 2), ([5], 0)] :: (uint8_t list \<times> nat) list"
  have h1: "ecb_block_engine sample_cipher sample_ecb_func"
    by (simp add: ecb_block_engine_def sample_cipher_def)
  have h2: "alg ?op = PSA_ALG_ECB_NO_PADDING psa_header_values"
    by (simp add: sample_operation_def psa_header_values_def)
  have h3: "ecb_ctx_ok (op_cipher ?op) 2"
    by (simp add: ecb_ctx_ok_def sample_operation_def)
  have h4: "cipher_update_chunks sample_cipher psa_header_values ?op ?chunks =
     Some (PSA_SUCCESS, ?op1, [8, 9, 11, 12])"
    by (simp add: sample_defs ecb_full_blocks.simps)
  have h5: "\<not> PSA_ALG_IS_STREAM_CIPHER psa_header_values (alg ?op)"
    by (simp add: sample_operation_def psa_header_values_def)
  have h6: "0 < block_size ?op"
    by (simp add: sample_operation_def)
  have h7: "(unprocessed_len (op_cipher ?op) + length (concat (map fst ?chunks)))
           div block_size ?op * block_size ?op \<le> 4"
    by (simp add: sample_operation_def)
  have c: "concat (map fst ?chunks) = [1, 2, 3, 4, 5]"
    by simp
  have p: "unprocessed_len (op_cipher ?op1) = 1" "ecb_pending (op_cipher ?op1) = [5]"
    "cipher_ctx (op_cipher ?op1) = 9" "length [8, 9, 11, 12 :: uint8_t] = 4"
    by (simp_all add: sample_operation_def ecb_pending_def)
  from ecb_chunked_update_equals_single_update [OF h1 h2 h3 h4 h5 h6 h7]
  have "\<exists>r. cipher_update sample_cipher psa_header_values ?op [1, 2, 3, 4, 5] 4 = Some r \<and>
        res_status r = PSA_SUCCESS \<and> res_output r = [8, 9, 11, 12] \<and>
        res_output_length r = Some 4 \<and>
        unprocessed_len (op_cipher (res_operation r)) = 1 \<and>
        ecb_pending (op_cipher (res_operation r)) = [5] \<and>
        cipher_ctx (op_cipher (res_operation r)) = 9"
    unfolding c p by blast
  with h1 h3 h4 show ?thesis by blast
qed

text \<open>
  In the example the chunked run leaves \<open>[5, 4, 0, 0]\<close> in the array and the single call
  \<open>[5, 0, 0, 0]\<close>: one byte is held in both, the second is what is left of a block
  that the chunked run assembled in the array.
\<close>

lemma ecb_stale_bytes_example:
  "cipher_update sample_cipher psa_header_values
       (sample_operation 0x04404400 0 2 [0, 0, 0, 0] 0 7) [1, 2, 3, 4, 5] 4 =
     Some \<lparr>res_status = PSA_SUCCESS,
           res_operation = sample_operation 0x04404400 0 2 [5, 0, 0, 0] 1 9,
           res_output = [8, 9, 11, 12], res_output_length = Some 4\<rparr>"
  by (simp add: sample_defs ecb_full_blocks.simps)

subsection \<open>C2\<close>

text \<open>
  C2, as the code has it. When the capacity check of update fails (the caller's capacity
  is below the expected output length), update returns BufferTooSmall, writes nothing and
  leaves the operation exactly as it was, so the same call with any other capacity does
  what it would have done had the failed call not been made. When finish returns
  BufferTooSmall, the finalisation of the cipher module has already run: nothing is
  written to the caller's buffer, and the operation is the one before the call with the
  context the finalisation left, which need not be the context before the call.
\<close>

theorem buffer_too_small_update_keeps_state:
  "(PSA_ALG_IS_STREAM_CIPHER V (alg operation) \<or> 0 < block_size operation \<longrightarrow>
    output_size <
      (if PSA_ALG_IS_STREAM_CIPHER V (alg operation) then length input
       else (unprocessed_len (op_cipher operation) + length input)
              div block_size operation * block_size operation) \<longrightarrow>
    (\<exists>r. cipher_update E V operation input output_size = Some r \<and>
         res_status r = PSA_ERROR_BUFFER_TOO_SMALL \<and> res_operation r = operation \<and>
         res_output r = [] \<and>
         (\<forall>n. cipher_update E V (res_operation r) input n = cipher_update E V operation input n))) \<and>
   (cipher_finish E V operation temp_output_buffer output_size = Some (r', scratch) \<longrightarrow>
    res_status r' = PSA_ERROR_BUFFER_TOO_SMALL \<longrightarrow>
    res_output r' = [] \<and>
    res_operation r' =
      operation\<lparr>op_cipher := fst (snd (mbedtls_cipher_finish E (op_cipher operation)))\<rparr>)"
proof (intro conjI impI)
  assume "PSA_ALG_IS_STREAM_CIPHER V (alg operation) \<or> 0 < block_size operation"
    and "output_size <
      (if PSA_ALG_IS_STREAM_CIPHER V (alg operation) then length input
       else (unprocessed_len (op_cipher operation) + length input)
              div block_size operation * block_size operation)"
  then have "cipher_update E V operation input output_size =
      Some \<lparr>res_status = PSA_ERROR_BUFFER_TOO_SMALL, res_operation = operation,
            res_output = [], res_output_length = None\<rparr>"
    by (auto simp: cipher_update_def Let_def split: if_splits)
  then show "\<exists>r. cipher_update E V operation input output_size = Some r \<and>
         res_status r = PSA_ERROR_BUFFER_TOO_SMALL \<and> res_operation r = operation \<and>
         res_output r = [] \<and>
         (\<forall>n. cipher_update E V (res_operation r) input n = cipher_update E V operation input n)"
    by simp
next
  assume fin: "cipher_finish E V operation temp_output_buffer output_size = Some (r', scratch)"
    and bts: "res_status r' = PSA_ERROR_BUFFER_TOO_SMALL"
  obtain ret ctx written olen where
    e: "mbedtls_cipher_finish E (op_cipher operation) = (ret, ctx, written, olen)"
    by (cases "mbedtls_cipher_finish E (op_cipher operation)") auto
  obtain t where "cipher_finish_to_exit E V operation temp_output_buffer output_size = Some (r', t)"
    using fin by (auto simp: cipher_finish_def split: option.splits)
  then have "res_output r' = [] \<and> res_operation r' = operation\<lparr>op_cipher := ctx\<rparr>"
    using bts e
    by (auto simp: cipher_finish_to_exit_def Let_def split: if_splits)
  then show "res_output r' = []"
    and "res_operation r' =
      operation\<lparr>op_cipher := fst (snd (mbedtls_cipher_finish E (op_cipher operation)))\<rparr>"
    using e by simp_all
qed

theorem buffer_too_small_update_keeps_state_witness:
  "(\<exists>r. cipher_update sample_cipher psa_header_values
          (sample_operation 0x04404400 0 2 [5, 0, 0, 0] 1 7) [1, 2, 3] 3 = Some r \<and>
        res_status r = PSA_ERROR_BUFFER_TOO_SMALL \<and>
        res_operation r = sample_operation 0x04404400 0 2 [5, 0, 0, 0] 1 7 \<and>
        res_output r = []) \<and>
   cipher_finish sample_cipher psa_header_values
       (sample_operation 0x04404100 4 4 [1, 2, 0, 0] 2 7) [9, 9, 9, 9] 0 =
     Some (\<lparr>res_status = PSA_ERROR_BUFFER_TOO_SMALL,
             res_operation = sample_operation 0x04404100 4 4 [1, 2, 0, 0] 2 8,
             res_output = [], res_output_length = Some 4\<rparr>, [0, 0, 0, 0]) \<and>
   sample_operation 0x04404100 4 4 [1, 2, 0, 0] 2 8 =
     (sample_operation 0x04404100 4 4 [1, 2, 0, 0] 2 7)
       \<lparr>op_cipher := fst (snd (mbedtls_cipher_finish sample_cipher
           (op_cipher (sample_operation 0x04404100 4 4 [1, 2, 0, 0] 2 7))))\<rparr>"
proof -
  let ?op = "sample_operation 0x04404400 0 2 [5, 0, 0, 0] 1 7"
  let ?fop = "sample_operation 0x04404100 4 4 [1, 2, 0, 0] 2 7"
  let ?r = "\<lparr>res_status = PSA_ERROR_BUFFER_TOO_SMALL,
             res_operation = sample_operation 0x04404100 4 4 [1, 2, 0, 0] 2 8,
             res_output = [], res_output_length = Some 4\<rparr>"
  have h1: "PSA_ALG_IS_STREAM_CIPHER psa_header_values (alg ?op) \<or> 0 < block_size ?op"
    by (simp add: sample_operation_def)
  have h2: "3 < (if PSA_ALG_IS_STREAM_CIPHER psa_header_values (alg ?op) then length [1, 2, 3 :: uint8_t]
       else (unprocessed_len (op_cipher ?op) + length [1, 2, 3 :: uint8_t])
              div block_size ?op * block_size ?op)"
    by (simp add: sample_operation_def psa_header_values_def)
  have h3: "cipher_finish sample_cipher psa_header_values ?fop [9, 9, 9, 9] 0 =
      Some (?r, [0, 0, 0, 0])"
    by (simp add: finish_sample_defs)
  have h4: "res_status ?r = PSA_ERROR_BUFFER_TOO_SMALL"
    by simp
  note T = buffer_too_small_update_keeps_state [where V = psa_header_values and
      operation = ?op and output_size = 3 and input = "[1, 2, 3]" and E = sample_cipher]
  note U = buffer_too_small_update_keeps_state [where V = psa_header_values and
      operation = ?fop and output_size = 0 and E = sample_cipher and
      temp_output_buffer = "[9, 9, 9, 9]" and r' = ?r and scratch = "[0, 0, 0, 0]"]
  from T h1 h2 have a: "\<exists>r. cipher_update sample_cipher psa_header_values ?op [1, 2, 3] 3 = Some r \<and>
        res_status r = PSA_ERROR_BUFFER_TOO_SMALL \<and> res_operation r = ?op \<and> res_output r = []"
    by blast
  from U h3 h4 have b: "res_operation ?r =
      ?fop\<lparr>op_cipher := fst (snd (mbedtls_cipher_finish sample_cipher (op_cipher ?fop)))\<rparr>"
    by blast
  from a h3 b show ?thesis by simp
qed

text \<open>
  The claim as stated fails for finish. With the sample module, whose finalisation moves
  the cipher state on as a chaining mode does, a finish that returns BufferTooSmall
  leaves the counter at 8 where it was 7, and the same call with room for the block
  then writes \<open>[8, 8, 8, 8]\<close>, where a finish that had room at once writes
  \<open>[7, 7, 7, 7]\<close>.
\<close>

theorem finish_buffer_too_small_changes_state:
  "cipher_finish sample_cipher psa_header_values
       (sample_operation 0x04404100 4 4 [1, 2, 0, 0] 2 7) [9, 9, 9, 9] 0 =
     Some (\<lparr>res_status = PSA_ERROR_BUFFER_TOO_SMALL,
             res_operation = sample_operation 0x04404100 4 4 [1, 2, 0, 0] 2 8,
             res_output = [], res_output_length = Some 4\<rparr>, [0, 0, 0, 0]) \<and>
   sample_operation 0x04404100 4 4 [1, 2, 0, 0] 2 8 \<noteq>
     sample_operation 0x04404100 4 4 [1, 2, 0, 0] 2 7 \<and>
   cipher_finish sample_cipher psa_header_values
       (sample_operation 0x04404100 4 4 [1, 2, 0, 0] 2 8) [9, 9, 9, 9] 4 =
     Some (\<lparr>res_status = PSA_SUCCESS,
             res_operation = sample_operation 0x04404100 4 4 [1, 2, 0, 0] 2 9,
             res_output = [8, 8, 8, 8], res_output_length = Some 4\<rparr>, [0, 0, 0, 0]) \<and>
   cipher_finish sample_cipher psa_header_values
       (sample_operation 0x04404100 4 4 [1, 2, 0, 0] 2 7) [9, 9, 9, 9] 4 =
     Some (\<lparr>res_status = PSA_SUCCESS,
             res_operation = sample_operation 0x04404100 4 4 [1, 2, 0, 0] 2 8,
             res_output = [7, 7, 7, 7], res_output_length = Some 4\<rparr>, [0, 0, 0, 0])"
  by (simp add: finish_sample_defs)

subsection \<open>C3\<close>

text \<open>
  C3. When the key type is DES and the key has 128 bits (two-key Triple-DES, the subkeys
  \<open>k1\<close> and \<open>k2\<close> of 8 bytes each), setup calls the key schedule of the cipher module
  with the 192-bit key \<open>k1 @ k2 @ k1\<close>, and the operation it leaves is the operation left
  by a setup with the three-key material \<open>k1 @ k2 @ k1\<close> of 192 bits, so every later call
  encrypts identically. For the second part the cipher module selects the same cipher for
  both key sizes.
\<close>

theorem two_key_triple_des_setup:
  assumes "length k1 = 8" and "length k2 = 8"
    and "mbedtls_cipher_info_from_psa E a (PSA_KEY_TYPE_DES V) 128 =
         mbedtls_cipher_info_from_psa E a (PSA_KEY_TYPE_DES V) 192"
  shows "cipher_setup_setkey E V ctx (PSA_KEY_TYPE_DES V) 128 (k1 @ k2) dir =
           Some (mbedtls_cipher_setkey E ctx (k1 @ k2 @ k1) 192 dir) \<and>
         cipher_setup E V operation \<lparr>core_type = PSA_KEY_TYPE_DES V, core_bits = 128\<rparr>
             (k1 @ k2) a dir =
           cipher_setup E V operation \<lparr>core_type = PSA_KEY_TYPE_DES V, core_bits = 192\<rparr>
             (k1 @ k2 @ k1) a dir"
proof -
  have k: "take 16 (k1 @ k2) @ take 8 (k1 @ k2) = k1 @ k2 @ k1"
    using assms(1,2) by simp
  have two: "cipher_setup_setkey E V c (PSA_KEY_TYPE_DES V) 128 (k1 @ k2) dir =
           Some (mbedtls_cipher_setkey E c (k1 @ k2 @ k1) 192 dir)" for c
    using assms(1,2) k by (simp add: cipher_setup_setkey_def Let_def)
  have three: "cipher_setup_setkey E V c (PSA_KEY_TYPE_DES V) 192 (k1 @ k2 @ k1) dir =
           Some (mbedtls_cipher_setkey E c (k1 @ k2 @ k1) 192 dir)" for c
    by (simp add: cipher_setup_setkey_def)
  show ?thesis
    using assms(3)
    by (simp add: two three cipher_setup_def Let_def cong: option.case_cong prod.case_cong if_cong)
qed

theorem two_key_triple_des_setup_witness:
  "cipher_setup sample_cipher psa_header_values (sample_operation 0 0 0 [0, 0, 0, 0] 0 0)
       \<lparr>core_type = 0x2301, core_bits = 128\<rparr>
       ([1, 2, 3, 4, 5, 6, 7, 8] @ [11, 12, 13, 14, 15, 16, 17, 18]) 0x04404400 MBEDTLS_ENCRYPT =
     cipher_setup sample_cipher psa_header_values (sample_operation 0 0 0 [0, 0, 0, 0] 0 0)
       \<lparr>core_type = 0x2301, core_bits = 192\<rparr>
       ([1, 2, 3, 4, 5, 6, 7, 8] @ [11, 12, 13, 14, 15, 16, 17, 18] @ [1, 2, 3, 4, 5, 6, 7, 8])
       0x04404400 MBEDTLS_ENCRYPT \<and>
   cipher_setup sample_cipher psa_header_values (sample_operation 0 0 0 [0, 0, 0, 0] 0 0)
       \<lparr>core_type = 0x2301, core_bits = 192\<rparr>
       ([1, 2, 3, 4, 5, 6, 7, 8] @ [11, 12, 13, 14, 15, 16, 17, 18] @ [1, 2, 3, 4, 5, 6, 7, 8])
       0x04404400 MBEDTLS_ENCRYPT =
     Some (PSA_SUCCESS, sample_operation 0x04404400 0 8 [0, 0, 0, 0] 0 380)"
proof -
  let ?k1 = "[1, 2, 3, 4, 5, 6, 7, 8] :: uint8_t list"
  let ?k2 = "[11, 12, 13, 14, 15, 16, 17, 18] :: uint8_t list"
  have d: "PSA_KEY_TYPE_DES psa_header_values = 0x2301"
    by (simp add: psa_header_values_def)
  have h1: "length ?k1 = 8" and h2: "length ?k2 = 8"
    by simp_all
  have h3: "mbedtls_cipher_info_from_psa sample_cipher 0x04404400
              (PSA_KEY_TYPE_DES psa_header_values) 128 =
            mbedtls_cipher_info_from_psa sample_cipher 0x04404400
              (PSA_KEY_TYPE_DES psa_header_values) 192"
    by (simp add: sample_cipher_def)
  have three: "cipher_setup sample_cipher psa_header_values (sample_operation 0 0 0 [0, 0, 0, 0] 0 0)
       \<lparr>core_type = 0x2301, core_bits = 192\<rparr> (?k1 @ ?k2 @ ?k1) 0x04404400 MBEDTLS_ENCRYPT =
     Some (PSA_SUCCESS, sample_operation 0x04404400 0 8 [0, 0, 0, 0] 0 380)"
    by (simp add: setup_sample_defs)
  from two_key_triple_des_setup [OF h1 h2 h3, of "op_cipher (sample_operation 0 0 0 [0, 0, 0, 0] 0 0)" MBEDTLS_ENCRYPT
      "sample_operation 0 0 0 [0, 0, 0, 0] 0 0"]
  show ?thesis
    unfolding d using three by blast
qed

subsection \<open>C4\<close>

text \<open>
  C4. On every exit path of finish (success, BufferTooSmall, InvalidArgument for a tail
  that is not a whole block, a translated failure of the cipher module) the scratch
  buffer that takes the output of the finalisation holds zeros when finish returns:
  whatever finish returns, and whatever the buffer held on entry, the buffer is all zeros.
  (That finish returns is \<open>cipher_finish_returns\<close>.)
\<close>

theorem cipher_finish_erases_scratch:
  assumes "cipher_finish E V operation temp_output_buffer output_size = Some (r, scratch)"
  shows "scratch = replicate (length temp_output_buffer) 0"
proof -
  obtain t where t: "cipher_finish_to_exit E V operation temp_output_buffer output_size = Some (r, t)"
    and s: "scratch = mbedtls_platform_zeroize t (length t)"
    using assms by (auto simp: cipher_finish_def split: option.splits)
  have "length t = length temp_output_buffer"
    using t
    by (auto simp: cipher_finish_to_exit_def Let_def split: if_splits prod.splits)
  then show ?thesis
    using s by (simp add: mbedtls_platform_zeroize_def)
qed

text \<open>The four exits, with a scratch buffer that holds \<open>[9, 9, 9, 9]\<close> on entry.\<close>

theorem cipher_finish_erases_scratch_witness:
  "cipher_finish sample_cipher psa_header_values
       (sample_operation 0x04404100 4 4 [1, 2, 0, 0] 2 7) [9, 9, 9, 9] 4 =
     Some (\<lparr>res_status = PSA_SUCCESS,
             res_operation = sample_operation 0x04404100 4 4 [1, 2, 0, 0] 2 8,
             res_output = [7, 7, 7, 7], res_output_length = Some 4\<rparr>,
           replicate (length [9, 9, 9, 9 :: uint8_t]) 0) \<and>
   cipher_finish sample_cipher psa_header_values
       (sample_operation 0x04404100 4 4 [1, 2, 0, 0] 2 7) [9, 9, 9, 9] 3 =
     Some (\<lparr>res_status = PSA_ERROR_BUFFER_TOO_SMALL,
             res_operation = sample_operation 0x04404100 4 4 [1, 2, 0, 0] 2 8,
             res_output = [], res_output_length = Some 4\<rparr>,
           replicate (length [9, 9, 9, 9 :: uint8_t]) 0) \<and>
   cipher_finish sample_cipher psa_header_values
       (sample_operation 0x04404400 0 4 [1, 2, 0, 0] 2 7) [9, 9, 9, 9] 4 =
     Some (\<lparr>res_status = PSA_ERROR_INVALID_ARGUMENT,
             res_operation = sample_operation 0x04404400 0 4 [1, 2, 0, 0] 2 7,
             res_output = [], res_output_length = None\<rparr>,
           replicate (length [9, 9, 9, 9 :: uint8_t]) 0) \<and>
   cipher_finish failing_finish_cipher psa_header_values
       (sample_operation 0x04404100 4 4 [1, 2, 0, 0] 2 7) [9, 9, 9, 9] 4 =
     Some (\<lparr>res_status = PSA_ERROR_other (- 1),
             res_operation = sample_operation 0x04404100 4 4 [1, 2, 0, 0] 2 7,
             res_output = [], res_output_length = Some 0\<rparr>,
           replicate (length [9, 9, 9, 9 :: uint8_t]) 0)"
proof -
  let ?t = "[9, 9, 9, 9] :: uint8_t list"
  have a: "cipher_finish sample_cipher psa_header_values
       (sample_operation 0x04404100 4 4 [1, 2, 0, 0] 2 7) ?t 4 =
     Some (\<lparr>res_status = PSA_SUCCESS,
             res_operation = sample_operation 0x04404100 4 4 [1, 2, 0, 0] 2 8,
             res_output = [7, 7, 7, 7], res_output_length = Some 4\<rparr>, [0, 0, 0, 0])"
    by (simp add: finish_sample_defs)
  have b: "cipher_finish sample_cipher psa_header_values
       (sample_operation 0x04404100 4 4 [1, 2, 0, 0] 2 7) ?t 3 =
     Some (\<lparr>res_status = PSA_ERROR_BUFFER_TOO_SMALL,
             res_operation = sample_operation 0x04404100 4 4 [1, 2, 0, 0] 2 8,
             res_output = [], res_output_length = Some 4\<rparr>, [0, 0, 0, 0])"
    by (simp add: finish_sample_defs)
  have c: "cipher_finish sample_cipher psa_header_values
       (sample_operation 0x04404400 0 4 [1, 2, 0, 0] 2 7) ?t 4 =
     Some (\<lparr>res_status = PSA_ERROR_INVALID_ARGUMENT,
             res_operation = sample_operation 0x04404400 0 4 [1, 2, 0, 0] 2 7,
             res_output = [], res_output_length = None\<rparr>, [0, 0, 0, 0])"
    by (simp add: finish_sample_defs)
  have d: "cipher_finish failing_finish_cipher psa_header_values
       (sample_operation 0x04404100 4 4 [1, 2, 0, 0] 2 7) ?t 4 =
     Some (\<lparr>res_status = PSA_ERROR_other (- 1),
             res_operation = sample_operation 0x04404100 4 4 [1, 2, 0, 0] 2 7,
             res_output = [], res_output_length = Some 0\<rparr>, [0, 0, 0, 0])"
    by (simp add: finish_sample_defs)
  have z: "[0, 0, 0, 0 :: uint8_t] = replicate (length ?t) 0"
    by (rule cipher_finish_erases_scratch [OF a])
  show ?thesis
    using a b c d
      cipher_finish_erases_scratch [OF b] cipher_finish_erases_scratch [OF c]
      cipher_finish_erases_scratch [OF d]
    unfolding z [symmetric] by simp
qed

subsection \<open>C5\<close>

text \<open>
  C5. The expected output length of an update call is
  \<open>(residual_length + input_length) div block_size * block_size\<close> for block-cipher
  algorithms and \<open>input_length\<close> for stream ciphers, and update returns BufferTooSmall if
  and only if the caller's capacity is smaller than it. Here: the block size of a block
  cipher is not 0 (the C division is defined), and no return code of the cipher module's
  update is translated to BufferTooSmall.
\<close>

theorem cipher_update_buffer_too_small_iff:
  assumes "PSA_ALG_IS_STREAM_CIPHER V (alg operation) \<or> 0 < block_size operation"
    and "\<forall>c i. mbedtls_to_psa_error E (fst (mbedtls_cipher_update E c i)) \<noteq>
           PSA_ERROR_BUFFER_TOO_SMALL"
  shows "(\<exists>r. cipher_update E V operation input output_size = Some r \<and>
              res_status r = PSA_ERROR_BUFFER_TOO_SMALL) \<longleftrightarrow>
         output_size <
           (if PSA_ALG_IS_STREAM_CIPHER V (alg operation) then length input
            else (unprocessed_len (op_cipher operation) + length input)
                   div block_size operation * block_size operation)"
proof -
  let ?expected = "if PSA_ALG_IS_STREAM_CIPHER V (alg operation) then length input
            else (unprocessed_len (op_cipher operation) + length input)
                   div block_size operation * block_size operation"
  show ?thesis
  proof (cases "output_size < ?expected")
    case True
    then have "cipher_update E V operation input output_size =
        Some \<lparr>res_status = PSA_ERROR_BUFFER_TOO_SMALL, res_operation = operation,
              res_output = [], res_output_length = None\<rparr>"
      using assms(1) by (auto simp: cipher_update_def Let_def split: if_splits)
    then show ?thesis using True by simp
  next
    case False
    have "res_status r \<noteq> PSA_ERROR_BUFFER_TOO_SMALL"
      if r: "cipher_update E V operation input output_size = Some r" for r
    proof (cases "alg operation = PSA_ALG_ECB_NO_PADDING V")
      case True
      then obtain y where y: "psa_cipher_update_ecb E (op_cipher operation) input output_size = Some y"
        and st: "res_status r = fst y"
        using r False
        by (auto simp: cipher_update_def Let_def split: if_splits option.splits)
      from psa_cipher_update_ecb_status [OF y] show ?thesis
        using st assms(2) by auto
    next
      case ne: False
      then have "res_status r =
          mbedtls_to_psa_error E (fst (mbedtls_cipher_update E (op_cipher operation) input))"
        using r False
        by (auto simp: cipher_update_def Let_def split: if_splits prod.splits)
      then show ?thesis using assms(2) by simp
    qed
    then show ?thesis using False by auto
  qed
qed

theorem cipher_update_buffer_too_small_iff_witness:
  "(PSA_ALG_IS_STREAM_CIPHER psa_header_values
        (alg (sample_operation 0x04404400 0 2 [5, 0, 0, 0] 1 7)) \<or>
    0 < block_size (sample_operation 0x04404400 0 2 [5, 0, 0, 0] 1 7)) \<and>
   (\<forall>c i. mbedtls_to_psa_error sample_cipher (fst (mbedtls_cipher_update sample_cipher c i)) \<noteq>
           PSA_ERROR_BUFFER_TOO_SMALL) \<and>
   (\<exists>r. cipher_update sample_cipher psa_header_values
          (sample_operation 0x04404400 0 2 [5, 0, 0, 0] 1 7) [1, 2, 3] 3 = Some r \<and>
        res_status r = PSA_ERROR_BUFFER_TOO_SMALL) \<and>
   \<not> (\<exists>r. cipher_update sample_cipher psa_header_values
            (sample_operation 0x04404400 0 2 [5, 0, 0, 0] 1 7) [1, 2, 3] 4 = Some r \<and>
          res_status r = PSA_ERROR_BUFFER_TOO_SMALL)"
proof -
  let ?op = "sample_operation 0x04404400 0 2 [5, 0, 0, 0] 1 7"
  have h1: "PSA_ALG_IS_STREAM_CIPHER psa_header_values (alg ?op) \<or> 0 < block_size ?op"
    by (simp add: sample_operation_def)
  have h2: "\<forall>c i. mbedtls_to_psa_error sample_cipher
              (fst (mbedtls_cipher_update sample_cipher c i)) \<noteq> PSA_ERROR_BUFFER_TOO_SMALL"
    by (simp add: sample_cipher_def sample_ecb_func_def)
  have e: "(if PSA_ALG_IS_STREAM_CIPHER psa_header_values (alg ?op) then length [1, 2, 3 :: uint8_t]
            else (unprocessed_len (op_cipher ?op) + length [1, 2, 3 :: uint8_t])
                   div block_size ?op * block_size ?op) = 4"
    by (simp add: sample_operation_def psa_header_values_def)
  have a: "\<exists>r. cipher_update sample_cipher psa_header_values ?op [1, 2, 3] 3 = Some r \<and>
        res_status r = PSA_ERROR_BUFFER_TOO_SMALL"
    using cipher_update_buffer_too_small_iff [OF h1 h2, where input = "[1, 2, 3]" and output_size = 3]
    unfolding e by simp
  have b: "\<not> (\<exists>r. cipher_update sample_cipher psa_header_values ?op [1, 2, 3] 4 = Some r \<and>
        res_status r = PSA_ERROR_BUFFER_TOO_SMALL)"
    using cipher_update_buffer_too_small_iff [OF h1 h2, where input = "[1, 2, 3]" and output_size = 4]
    unfolding e by simp
  from h1 h2 a b show ?thesis by blast
qed

subsection \<open>C6\<close>

text \<open>
  C6, as the code has it. After a successful setup, \<open>iv_size\<close> is the block length of
  the key type for the algorithms that have the cipher-from-block flag, raw ECB apart;
  otherwise 12 for the stream cipher algorithm with a ChaCha20 key; otherwise (raw ECB
  among these) the value it held before the call, which setup does not write: 0 for an
  operation that was zero-initialised. A return code is translated to success only when
  it is 0.
\<close>

theorem cipher_setup_iv_size:
  assumes "cipher_setup E V operation attributes key_buffer a dir = Some (PSA_SUCCESS, operation')"
    and "\<forall>ret. mbedtls_to_psa_error E ret = PSA_SUCCESS \<longrightarrow> ret = 0"
  shows "iv_size operation' =
     (if (a AND PSA_ALG_CIPHER_FROM_BLOCK_FLAG V) \<noteq> 0 \<and> a \<noteq> PSA_ALG_ECB_NO_PADDING V then
        PSA_BLOCK_CIPHER_BLOCK_LENGTH V (core_type attributes)
      else if a = PSA_ALG_STREAM_CIPHER V \<and> core_type attributes = PSA_KEY_TYPE_CHACHA20 V then 12
      else iv_size operation)"
proof -
  from cipher_setup_exits [OF assms(1)] assms(2)
  obtain ctx where "operation' =
      cipher_setup_sizes V (operation\<lparr>alg := a, op_cipher := ctx\<rparr>) a (core_type attributes)"
    by (metis psa_status_t.distinct(3))
  then show ?thesis
    by (simp add: cipher_setup_sizes_iv_size)
qed

text \<open>
  An operation object used before with the stream cipher algorithm (\<open>iv_size\<close> 12) and
  set up for CBC; one used before with CBC (\<open>iv_size\<close> 16) and set up for ChaCha20; and
  a zero-initialised one set up for raw ECB.
\<close>

theorem cipher_setup_iv_size_witness:
  "cipher_setup sample_cipher psa_header_values
       (sample_operation 0x04800100 12 1 [0, 0, 0, 0] 0 0)
       \<lparr>core_type = 0x2400, core_bits = 128\<rparr>
       [1, 2, 3, 4, 5, 6, 7, 8, 11, 12, 13, 14, 15, 16, 17, 18] 0x04404000 MBEDTLS_ENCRYPT =
     Some (PSA_SUCCESS, sample_operation 0x04404000 16 16 [0, 0, 0, 0] 0 280) \<and>
   iv_size (sample_operation 0x04404000 16 16 [0, 0, 0, 0] 0 280) = 16 \<and>
   cipher_setup sample_cipher psa_header_values
       (sample_operation 0x04404000 16 16 [0, 0, 0, 0] 0 0)
       \<lparr>core_type = 0x2004, core_bits = 256\<rparr>
       [1, 2, 3, 4, 5, 6, 7, 8, 11, 12, 13, 14, 15, 16, 17, 18] 0x04800100 MBEDTLS_ENCRYPT =
     Some (PSA_SUCCESS, sample_operation 0x04800100 12 1 [0, 0, 0, 0] 0 408) \<and>
   iv_size (sample_operation 0x04800100 12 1 [0, 0, 0, 0] 0 408) = 12 \<and>
   cipher_setup sample_cipher psa_header_values (sample_operation 0 0 0 [0, 0, 0, 0] 0 0)
       \<lparr>core_type = 0x2400, core_bits = 128\<rparr>
       [1, 2, 3, 4, 5, 6, 7, 8, 11, 12, 13, 14, 15, 16, 17, 18] 0x04404400 MBEDTLS_ENCRYPT =
     Some (PSA_SUCCESS, sample_operation 0x04404400 0 16 [0, 0, 0, 0] 0 280) \<and>
   iv_size (sample_operation 0x04404400 0 16 [0, 0, 0, 0] 0 280) = 0"
proof -
  let ?key = "[1, 2, 3, 4, 5, 6, 7, 8, 11, 12, 13, 14, 15, 16, 17, 18] :: uint8_t list"
  have t: "\<forall>ret. mbedtls_to_psa_error sample_cipher ret = PSA_SUCCESS \<longrightarrow> ret = 0"
    by (simp add: sample_cipher_def)
  have cbc: "cipher_setup sample_cipher psa_header_values
       (sample_operation 0x04800100 12 1 [0, 0, 0, 0] 0 0) \<lparr>core_type = 0x2400, core_bits = 128\<rparr>
       ?key 0x04404000 MBEDTLS_ENCRYPT =
     Some (PSA_SUCCESS, sample_operation 0x04404000 16 16 [0, 0, 0, 0] 0 280)"
    by (simp add: setup_sample_defs)
  have chacha: "cipher_setup sample_cipher psa_header_values
       (sample_operation 0x04404000 16 16 [0, 0, 0, 0] 0 0) \<lparr>core_type = 0x2004, core_bits = 256\<rparr>
       ?key 0x04800100 MBEDTLS_ENCRYPT =
     Some (PSA_SUCCESS, sample_operation 0x04800100 12 1 [0, 0, 0, 0] 0 408)"
    by (simp add: setup_sample_defs)
  have ecb: "cipher_setup sample_cipher psa_header_values (sample_operation 0 0 0 [0, 0, 0, 0] 0 0)
       \<lparr>core_type = 0x2400, core_bits = 128\<rparr> ?key 0x04404400 MBEDTLS_ENCRYPT =
     Some (PSA_SUCCESS, sample_operation 0x04404400 0 16 [0, 0, 0, 0] 0 280)"
    by (simp add: setup_sample_defs)
  have a: "iv_size (sample_operation 0x04404000 16 16 [0, 0, 0, 0] 0 280) = 16"
    using cipher_setup_iv_size [OF cbc t] by (simp add: psa_header_values_def)
  have b: "iv_size (sample_operation 0x04800100 12 1 [0, 0, 0, 0] 0 408) = 12"
    using cipher_setup_iv_size [OF chacha t] by (simp add: psa_header_values_def)
  have c: "iv_size (sample_operation 0x04404400 0 16 [0, 0, 0, 0] 0 280) = 0"
    using cipher_setup_iv_size [OF ecb t]
    by (simp add: psa_header_values_def sample_operation_def)
  from cbc a chacha b ecb c show ?thesis by blast
qed

text \<open>
  The claim as stated fails for an operation object that is used again. After an
  operation with CBC, whose \<open>iv_size\<close> is 16, a successful setup of the same object for
  raw ECB leaves \<open>iv_size\<close> at 16.
\<close>

theorem cipher_setup_ecb_keeps_earlier_iv_size:
  "cipher_setup sample_cipher psa_header_values
       (sample_operation 0x04404000 16 16 [0, 0, 0, 0] 0 0)
       \<lparr>core_type = 0x2400, core_bits = 128\<rparr>
       [1, 2, 3, 4, 5, 6, 7, 8, 11, 12, 13, 14, 15, 16, 17, 18] 0x04404400 MBEDTLS_ENCRYPT =
     Some (PSA_SUCCESS, sample_operation 0x04404400 16 16 [0, 0, 0, 0] 0 280) \<and>
   iv_size (sample_operation 0x04404400 16 16 [0, 0, 0, 0] 0 280) \<noteq> 0"
  by (simp add: setup_sample_defs)

subsection \<open>C7\<close>

text \<open>
  C7. For an operation that holds bytes (the residual length is not 0) and whose
  algorithm has no padding (raw ECB, or CBC without padding), finish fails with
  InvalidArgument and writes nothing to the caller's buffer; the operation is unchanged
  and the cipher module is not called.
\<close>

theorem cipher_finish_unaligned_no_padding:
  assumes "unprocessed_len (op_cipher operation) \<noteq> 0"
    and "alg operation = PSA_ALG_ECB_NO_PADDING V \<or> alg operation = PSA_ALG_CBC_NO_PADDING V"
  shows "cipher_finish E V operation temp_output_buffer output_size =
     Some (\<lparr>res_status = PSA_ERROR_INVALID_ARGUMENT, res_operation = operation,
             res_output = [], res_output_length = None\<rparr>,
           replicate (length temp_output_buffer) 0)"
  using assms
  by (auto simp: cipher_finish_def cipher_finish_to_exit_def mbedtls_platform_zeroize_def)

theorem cipher_finish_unaligned_no_padding_witness:
  "unprocessed_len (op_cipher (sample_operation 0x04404000 4 4 [1, 2, 0, 0] 2 7)) \<noteq> 0 \<and>
   alg (sample_operation 0x04404000 4 4 [1, 2, 0, 0] 2 7) =
     PSA_ALG_CBC_NO_PADDING psa_header_values \<and>
   cipher_finish sample_cipher psa_header_values
       (sample_operation 0x04404000 4 4 [1, 2, 0, 0] 2 7) [9, 9, 9, 9] 16 =
     Some (\<lparr>res_status = PSA_ERROR_INVALID_ARGUMENT,
             res_operation = sample_operation 0x04404000 4 4 [1, 2, 0, 0] 2 7,
             res_output = [], res_output_length = None\<rparr>, [0, 0, 0, 0])"
proof -
  let ?op = "sample_operation 0x04404000 4 4 [1, 2, 0, 0] 2 7"
  have h1: "unprocessed_len (op_cipher ?op) \<noteq> 0"
    by (simp add: sample_operation_def)
  have a: "alg ?op = PSA_ALG_CBC_NO_PADDING psa_header_values"
    by (simp add: sample_operation_def psa_header_values_def)
  then have h2: "alg ?op = PSA_ALG_ECB_NO_PADDING psa_header_values \<or>
      alg ?op = PSA_ALG_CBC_NO_PADDING psa_header_values"
    by simp
  have z: "replicate (length [9, 9, 9, 9 :: uint8_t]) (0 :: uint8_t) = [0, 0, 0, 0]"
    by (simp add: numeral_eq_Suc)
  from cipher_finish_unaligned_no_padding [OF h1 h2, of sample_cipher "[9, 9, 9, 9]" 16]
  show ?thesis
    unfolding z using h1 a by blast
qed

subsection \<open>C8\<close>




subsection \<open>C9\<close>

text \<open>
  C9. abort fails with BadState exactly when the algorithm field of the operation is not
  a cipher algorithm, and then changes nothing; otherwise it frees the context of the
  cipher module and returns success. A second call returns what the first returned, and
  after a setup, also one that failed, abort returns success or BadState as the algorithm
  given to that setup is a cipher algorithm or not. abort has no other exit.
\<close>

theorem cipher_abort_bad_state_iff:
  "(fst (cipher_abort E V operation) = PSA_ERROR_BAD_STATE \<longleftrightarrow>
      \<not> PSA_ALG_IS_CIPHER V (alg operation)) \<and>
   (\<not> PSA_ALG_IS_CIPHER V (alg operation) \<longrightarrow>
      cipher_abort E V operation = (PSA_ERROR_BAD_STATE, operation)) \<and>
   (PSA_ALG_IS_CIPHER V (alg operation) \<longrightarrow>
      cipher_abort E V operation =
        (PSA_SUCCESS, operation\<lparr>op_cipher := mbedtls_cipher_free E (op_cipher operation)\<rparr>)) \<and>
   fst (cipher_abort E V (snd (cipher_abort E V operation))) = fst (cipher_abort E V operation) \<and>
   (cipher_setup E V operation attributes key_buffer a dir = Some (st, operation') \<longrightarrow>
      fst (cipher_abort E V operation') =
        (if PSA_ALG_IS_CIPHER V a then PSA_SUCCESS else PSA_ERROR_BAD_STATE))"
proof -
  have "alg operation' = a"
    if "cipher_setup E V operation attributes key_buffer a dir = Some (st, operation')"
    using cipher_setup_exits [OF that] by simp
  then show ?thesis
    by (auto simp: cipher_abort_def)
qed

text \<open>
  A zero-initialised operation, an operation in use, and the operation a failed setup
  leaves (the key type \<open>0x1001\<close> is no cipher key type).
\<close>

theorem cipher_abort_bad_state_iff_witness:
  "\<not> PSA_ALG_IS_CIPHER psa_header_values (alg (sample_operation 0 0 0 [0, 0, 0, 0] 0 0)) \<and>
   cipher_abort sample_cipher psa_header_values (sample_operation 0 0 0 [0, 0, 0, 0] 0 0) =
     (PSA_ERROR_BAD_STATE, sample_operation 0 0 0 [0, 0, 0, 0] 0 0) \<and>
   PSA_ALG_IS_CIPHER psa_header_values (alg (sample_operation 0x04404400 0 2 [5, 0, 0, 0] 1 7)) \<and>
   fst (cipher_abort sample_cipher psa_header_values
          (sample_operation 0x04404400 0 2 [5, 0, 0, 0] 1 7)) = PSA_SUCCESS \<and>
   fst (cipher_abort sample_cipher psa_header_values
          (snd (cipher_abort sample_cipher psa_header_values
                  (sample_operation 0x04404400 0 2 [5, 0, 0, 0] 1 7)))) = PSA_SUCCESS \<and>
   cipher_setup sample_cipher psa_header_values (sample_operation 0 0 0 [0, 0, 0, 0] 0 0)
       \<lparr>core_type = 0x1001, core_bits = 128\<rparr> [1, 2, 3, 4] 0x04404400 MBEDTLS_ENCRYPT =
     Some (PSA_ERROR_NOT_SUPPORTED,
           (sample_operation 0x04404400 0 0 [0, 0, 0, 0] 0 0)
             \<lparr>op_cipher := \<lparr>cipher_info = None, unprocessed_data = [0, 0, 0, 0],
                             unprocessed_len = 0, cipher_ctx = 0\<rparr>\<rparr>) \<and>
   fst (cipher_abort sample_cipher psa_header_values
          ((sample_operation 0x04404400 0 0 [0, 0, 0, 0] 0 0)
             \<lparr>op_cipher := \<lparr>cipher_info = None, unprocessed_data = [0, 0, 0, 0],
                             unprocessed_len = 0, cipher_ctx = 0\<rparr>\<rparr>)) = PSA_SUCCESS"
proof -
  let ?zero = "sample_operation 0 0 0 [0, 0, 0, 0] 0 0"
  let ?op = "sample_operation 0x04404400 0 2 [5, 0, 0, 0] 1 7"
  let ?failed = "(sample_operation 0x04404400 0 0 [0, 0, 0, 0] 0 0)
             \<lparr>op_cipher := \<lparr>cipher_info = None, unprocessed_data = [0, 0, 0, 0],
                             unprocessed_len = 0, cipher_ctx = 0\<rparr>\<rparr>"
  have h1: "\<not> PSA_ALG_IS_CIPHER psa_header_values (alg ?zero)"
    by (simp add: sample_operation_def psa_header_values_def)
  have h2: "PSA_ALG_IS_CIPHER psa_header_values (alg ?op)"
    by (simp add: sample_operation_def psa_header_values_def)
  have h3: "PSA_ALG_IS_CIPHER psa_header_values 0x04404400"
    by (simp add: psa_header_values_def)
  have s: "cipher_setup sample_cipher psa_header_values ?zero
       \<lparr>core_type = 0x1001, core_bits = 128\<rparr> [1, 2, 3, 4] 0x04404400 MBEDTLS_ENCRYPT =
     Some (PSA_ERROR_NOT_SUPPORTED, ?failed)"
    by (simp add: setup_sample_defs)
  note Z = cipher_abort_bad_state_iff [where E = sample_cipher and V = psa_header_values and
      operation = ?zero]
  note A = cipher_abort_bad_state_iff [where E = sample_cipher and V = psa_header_values and
      operation = ?op]
  note S = cipher_abort_bad_state_iff [where E = sample_cipher and V = psa_header_values and
      operation = ?zero and attributes = "\<lparr>core_type = 0x1001, core_bits = 128\<rparr>" and
      key_buffer = "[1, 2, 3, 4]" and a = "0x04404400" and dir = MBEDTLS_ENCRYPT and
      st = PSA_ERROR_NOT_SUPPORTED and operation' = ?failed]
  have a: "cipher_abort sample_cipher psa_header_values ?zero = (PSA_ERROR_BAD_STATE, ?zero)"
    using Z h1 by blast
  have b: "fst (cipher_abort sample_cipher psa_header_values ?op) = PSA_SUCCESS"
    using A h2 by (metis fst_conv)
  have "fst (cipher_abort sample_cipher psa_header_values
          (snd (cipher_abort sample_cipher psa_header_values ?op))) =
        fst (cipher_abort sample_cipher psa_header_values ?op)"
    using A by blast
  then have c: "fst (cipher_abort sample_cipher psa_header_values
          (snd (cipher_abort sample_cipher psa_header_values ?op))) = PSA_SUCCESS"
    using b by simp
  have "fst (cipher_abort sample_cipher psa_header_values ?failed) =
      (if PSA_ALG_IS_CIPHER psa_header_values 0x04404400 then PSA_SUCCESS
       else PSA_ERROR_BAD_STATE)"
    using S s by blast
  then have d: "fst (cipher_abort sample_cipher psa_header_values ?failed) = PSA_SUCCESS"
    using h3 by simp
  from h1 a h2 b c s d show ?thesis by blast
qed

subsection \<open>C10\<close>

text \<open>
  C10. Setup writes \<open>iv_size\<close> in two cases only: for the algorithms that have the
  cipher-from-block flag other than raw ECB, and for the stream cipher algorithm with a
  ChaCha20 key. For every other algorithm and key type (raw ECB and the other stream
  ciphers among them) setup, whatever it returns, leaves \<open>iv_size\<close> at the value it held
  before the call, so it is 0 afterwards only if it was 0 before.
\<close>

theorem cipher_setup_leaves_iv_size:
  assumes "cipher_setup E V operation attributes key_buffer a dir = Some (st, operation')"
    and "\<not> ((a AND PSA_ALG_CIPHER_FROM_BLOCK_FLAG V) \<noteq> 0 \<and> a \<noteq> PSA_ALG_ECB_NO_PADDING V)"
    and "\<not> (a = PSA_ALG_STREAM_CIPHER V \<and> core_type attributes = PSA_KEY_TYPE_CHACHA20 V)"
  shows "iv_size operation' = iv_size operation"
proof -
  from cipher_setup_exits [OF assms(1)]
  consider "iv_size operation' = iv_size operation"
    | ctx where "operation' =
        cipher_setup_sizes V (operation\<lparr>alg := a, op_cipher := ctx\<rparr>) a (core_type attributes)"
    by blast
  then show ?thesis
  proof cases
    case 1
    then show ?thesis .
  next
    case 2
    have "iv_size (cipher_setup_sizes V (operation\<lparr>alg := a, op_cipher := ctx\<rparr>) a
            (core_type attributes)) = iv_size (operation\<lparr>alg := a, op_cipher := ctx\<rparr>)"
      using assms(2,3) by (simp only: cipher_setup_sizes_iv_size if_False)
    then show ?thesis
      using 2 by simp
  qed
qed

text \<open>
  An operation object used before with CBC (\<open>iv_size\<close> 16) and set up again for the
  stream cipher algorithm with a key type that is not ChaCha20: \<open>iv_size\<close> stays 16.
\<close>

theorem cipher_setup_leaves_iv_size_witness:
  "cipher_setup sample_cipher psa_header_values
       (sample_operation 0x04404000 16 16 [0, 0, 0, 0] 0 0)
       \<lparr>core_type = 0x2002, core_bits = 128\<rparr>
       [1, 2, 3, 4, 5, 6, 7, 8, 11, 12, 13, 14, 15, 16, 17, 18] 0x04800100 MBEDTLS_ENCRYPT =
     Some (PSA_SUCCESS, sample_operation 0x04800100 16 1 [0, 0, 0, 0] 0 280) \<and>
   iv_size (sample_operation 0x04800100 16 1 [0, 0, 0, 0] 0 280) =
     iv_size (sample_operation 0x04404000 16 16 [0, 0, 0, 0] 0 0)"
proof -
  let ?attrs = "\<lparr>core_type = 0x2002, core_bits = 128\<rparr>"
  have s: "cipher_setup sample_cipher psa_header_values
       (sample_operation 0x04404000 16 16 [0, 0, 0, 0] 0 0) ?attrs
       [1, 2, 3, 4, 5, 6, 7, 8, 11, 12, 13, 14, 15, 16, 17, 18] 0x04800100 MBEDTLS_ENCRYPT =
     Some (PSA_SUCCESS, sample_operation 0x04800100 16 1 [0, 0, 0, 0] 0 280)"
    by (simp add: setup_sample_defs)
  have h2: "\<not> ((0x04800100 AND PSA_ALG_CIPHER_FROM_BLOCK_FLAG psa_header_values) \<noteq> 0 \<and>
      0x04800100 \<noteq> PSA_ALG_ECB_NO_PADDING psa_header_values)"
    by (simp add: psa_header_values_def)
  have h3: "\<not> (0x04800100 = PSA_ALG_STREAM_CIPHER psa_header_values \<and>
      core_type ?attrs = PSA_KEY_TYPE_CHACHA20 psa_header_values)"
    by (simp add: psa_header_values_def)
  from cipher_setup_leaves_iv_size [OF s h2 h3] s show ?thesis by simp
qed

end
